theory Spec2Isabelle
  imports Complex_Main
begin

section \<open>JavaScript values used by the data access layer\<close>

text \<open>
  The two models (\<^verbatim>\<open>models/company.js\<close>, \<^verbatim>\<open>models/job.js\<close>) and the helper
  \<^verbatim>\<open>helpers/sql.js\<close> build SQL text and positional parameter lists. Strings are
  \<^typ>\<open>string\<close>, JavaScript numbers that the code uses are integers (\<^typ>\<open>nat\<close> for
  array indices and lengths, \<^typ>\<open>int\<close> for filter values and ids), and a value that may
  be \<^verbatim>\<open>undefined\<close> is an \<^typ>\<open>'a option\<close>.
\<close>

subsection \<open>Number to string, as a template literal prints it\<close>

definition digit_char :: "nat \<Rightarrow> char" where
  "digit_char d = ''0123456789'' ! d"

text \<open>The decimal digits of a non-negative integer, most significant first.\<close>

fun toString_nat :: "nat \<Rightarrow> string" where
  "toString_nat n =
     (if 10 \<le> n then toString_nat (n div 10) @ [digit_char (n mod 10)] else [digit_char n])"

declare toString_nat.simps [simp del]

definition toString_int :: "int \<Rightarrow> string" where
  "toString_int i = (if 0 \<le> i then toString_nat (nat i) else CHR ''-'' # toString_nat (nat (- i)))"

subsection \<open>Array helpers\<close>

text \<open>\<^verbatim>\<open>xs.map((x, idx) => f(x, idx))\<close>, started at index \<open>idx\<close>.\<close>

fun map_idx :: "('a \<Rightarrow> nat \<Rightarrow> 'b) \<Rightarrow> nat \<Rightarrow> 'a list \<Rightarrow> 'b list" where
  "map_idx f idx [] = []"
| "map_idx f idx (x # xs) = f x idx # map_idx f (idx + 1) xs"

text \<open>\<^verbatim>\<open>xs.join(sep)\<close> on an array of strings.\<close>

fun join :: "string \<Rightarrow> string list \<Rightarrow> string" where
  "join sep [] = []"
| "join sep [x] = x"
| "join sep (x # y # ys) = x @ sep @ join sep (y # ys)"

text \<open>
  \<^verbatim>\<open>a || b\<close> where \<open>a\<close> is a property lookup yielding a string or \<^verbatim>\<open>undefined\<close>:
  \<^verbatim>\<open>undefined\<close> and the empty string are falsy.
\<close>

definition js_or :: "string option \<Rightarrow> string \<Rightarrow> string" where
  "js_or a b = (case a of None \<Rightarrow> b | Some s \<Rightarrow> if s = [] then b else s)"

text \<open>
  An object literal, read with \<^verbatim>\<open>obj[key]\<close>: its own entries first, then what every
  object inherits from \<^verbatim>\<open>Object.prototype\<close>. The inherited values are functions (and,
  under \<^verbatim>\<open>__proto__\<close>, the prototype itself). The helper only tests such a value for
  truthiness and prints it into a template literal, so each stands here as the string that
  Node prints for it. The own entries are those with a defined value.
\<close>

definition Object_prototype :: "string \<Rightarrow> string option" where
  "Object_prototype =
     map_of
       [(''constructor'', ''function Object() { [native code] }''),
        (''__defineGetter__'', ''function __defineGetter__() { [native code] }''),
        (''__defineSetter__'', ''function __defineSetter__() { [native code] }''),
        (''hasOwnProperty'', ''function hasOwnProperty() { [native code] }''),
        (''__lookupGetter__'', ''function __lookupGetter__() { [native code] }''),
        (''__lookupSetter__'', ''function __lookupSetter__() { [native code] }''),
        (''isPrototypeOf'', ''function isPrototypeOf() { [native code] }''),
        (''propertyIsEnumerable'', ''function propertyIsEnumerable() { [native code] }''),
        (''toString'', ''function toString() { [native code] }''),
        (''valueOf'', ''function valueOf() { [native code] }''),
        (''__proto__'', ''[object Object]''),
        (''toLocaleString'', ''function toLocaleString() { [native code] }'')]"

definition object_literal :: "(string \<Rightarrow> string option) \<Rightarrow> string \<Rightarrow> string option" where
  "object_literal own k = (case own k of Some v \<Rightarrow> Some v | None \<Rightarrow> Object_prototype k)"

section \<open>Errors\<close>

text \<open>
  \<^verbatim>\<open>expressError.js\<close> is imported by the models; they raise \<open>BadRequestError\<close> (the
  specification's ValidationError, and with the message \<^verbatim>\<open>Duplicate company: h\<close> its
  DuplicateKeyError) and \<open>NotFoundError\<close>, each with a message. \<open>StorageError\<close> stands
  for whatever \<^verbatim>\<open>db.query\<close> itself throws; the models never catch it.
\<close>

datatype error = BadRequestError string | NotFoundError string | StorageError

section \<open>helpers/sql.js\<close>

text \<open>
  \<^verbatim>\<open>dataToUpdate\<close> is an object: its entries in the order of \<^verbatim>\<open>Object.keys\<close>, as an
  association list. \<^verbatim>\<open>jsToSql\<close> is read only through the lookup
  \<^verbatim>\<open>jsToSql[colName]\<close>, so it is that lookup: \<open>None\<close> where the result is
  \<^verbatim>\<open>undefined\<close>.
\<close>

record 'v partial_update =
  setCols :: string
  "values" :: "'v list"

text \<open>The array \<^verbatim>\<open>cols\<close> of the source, from \<^verbatim>\<open>keys\<close>.\<close>

definition cols :: "string list \<Rightarrow> (string \<Rightarrow> string option) \<Rightarrow> string list" where
  "cols keys jsToSql =
     map_idx (\<lambda>colName idx.
        [CHR 0x22] @ js_or (jsToSql colName) colName @ [CHR 0x22] @ ''=$'' @ toString_nat (idx + 1))
       0 keys"

definition sqlForPartialUpdate ::
  "(string \<times> 'v) list \<Rightarrow> (string \<Rightarrow> string option) \<Rightarrow> error + 'v partial_update" where
  "sqlForPartialUpdate dataToUpdate jsToSql =
     (let keys = map fst dataToUpdate in
      if length keys = 0 then Inl (BadRequestError ''No data'')
      else Inr \<lparr>setCols = join '', '' (cols keys jsToSql), values = map snd dataToUpdate\<rparr>)"

section \<open>The relational store behind \<^verbatim>\<open>db.query\<close>\<close>

text \<open>
  Modelled from the spec: the storage adapter \<^verbatim>\<open>db.query(text, values)\<close> of
  \<^verbatim>\<open>db.js\<close> and the database behind it are not among the source files. The
  specification (section 6) describes a query-execution capability that takes a
  parameterized statement and a positional value list and returns an ordered sequence of
  records, with storage failures distinguishable from "no rows". The model below is a
  relational store with the two tables and the columns that the statements of the models
  name, and an interpreter for exactly the statements the models issue. It takes the text
  that the model passes, reads it, and runs it.
\<close>

subsection \<open>Values, rows, tables\<close>

datatype sqlval = SqlNull | SqlInt int | SqlNumeric rat | SqlText string

type_synonym row = "(string \<times> sqlval) list"

text \<open>
  A stored row lists its columns by name; a result row lists its output names. \<open>issued\<close> is
  the sequence of calls of \<^verbatim>\<open>db.query\<close> so far, each with its text and its values.
\<close>

record store =
  companies :: "row list"
  jobs :: "row list"
  next_job_id :: int
  issued :: "(string \<times> sqlval list) list"

datatype table = Companies | Jobs

datatype source = From table | JobsLeftJoinCompanies

fun columns :: "table \<Rightarrow> string list" where
  "columns Companies = [''handle'', ''name'', ''description'', ''num_employees'', ''logo_url'']"
| "columns Jobs = [''id'', ''title'', ''salary'', ''equity'', ''company_handle'']"

fun rows_of :: "store \<Rightarrow> table \<Rightarrow> row list" where
  "rows_of db Companies = companies db"
| "rows_of db Jobs = jobs db"

fun with_rows :: "store \<Rightarrow> table \<Rightarrow> row list \<Rightarrow> store" where
  "with_rows db Companies rs = db\<lparr>companies := rs\<rparr>"
| "with_rows db Jobs rs = db\<lparr>jobs := rs\<rparr>"

text \<open>
  Modelled from the spec: the types of the columns (section 3 of the specification; the
  route tests get \<open>id\<close>, \<open>salary\<close> and \<open>numEmployees\<close> back as numbers and \<open>equity\<close> as a
  string, which is how the driver returns a 32-bit integer and a NUMERIC). A name is in one
  table only, so the type goes by the name, with or without the alias of \<open>findAll\<close>.
\<close>

datatype coltype = TText | TInteger | TNumeric

definition column_type :: "string \<Rightarrow> coltype" where
  "column_type c =
     (if c \<in> set [''id'', ''salary'', ''num_employees'', ''j.id'', ''j.salary'', ''c.num_employees'']
      then TInteger
      else if c \<in> set [''equity'', ''j.equity''] then TNumeric
      else TText)"

text \<open>
  \<open>fits ty v\<close>: a column of type \<open>ty\<close> takes the parameter \<open>v\<close> as a value to store. NULL
  fits every type, a text without the character NUL a text column, an integer of 32 bits an
  integer column, a number a numeric column. The conversions that a database makes between
  types (a numeric string for an integer column, a number for a text column) are not
  modelled: such a parameter is refused.

  \<open>comparable ty v\<close>: the parameter \<open>v\<close> can be compared with a column of type \<open>ty\<close>. For
  an integer or numeric column this is \<open>fits\<close>; with a text column a parameter is compared
  as it is passed.
\<close>

fun fits :: "coltype \<Rightarrow> sqlval \<Rightarrow> bool" where
  "fits ty SqlNull = True"
| "fits TText (SqlText s) = (CHR 0x00 \<notin> set s)"
| "fits TInteger (SqlInt i) = (- 2147483648 \<le> i \<and> i \<le> 2147483647)"
| "fits TNumeric (SqlInt i) = True"
| "fits TNumeric (SqlNumeric q) = True"
| "fits ty v = False"

fun comparable :: "coltype \<Rightarrow> sqlval \<Rightarrow> bool" where
  "comparable TText v = True"
| "comparable ty v = fits ty v"

definition col_val :: "row \<Rightarrow> string \<Rightarrow> sqlval" where
  "col_val r c = (case map_of r c of None \<Rightarrow> SqlNull | Some v \<Rightarrow> v)"

text \<open>
  What the schema does with a write (its NOT NULL, CHECK, UNIQUE and foreign-key constraints
  and their referential actions) is not in the source either: it is a parameter. Given the
  store before a write and the store the write proposes, it yields the store as committed, or
  \<open>None\<close> when the write is refused.
\<close>

type_synonym schema = "store \<Rightarrow> store \<Rightarrow> store option"

subsection \<open>Comparisons\<close>

fun num_of :: "sqlval \<Rightarrow> rat option" where
  "num_of (SqlInt i) = Some (of_int i)"
| "num_of (SqlNumeric q) = Some q"
| "num_of _ = None"

definition lower :: "char \<Rightarrow> char" where
  "lower c =
     (case map_of (zip ''ABCDEFGHIJKLMNOPQRSTUVWXYZ'' ''abcdefghijklmnopqrstuvwxyz'') c of
        None \<Rightarrow> c | Some l \<Rightarrow> l)"

text \<open>
  \<open>like p s\<close>: the string \<open>s\<close> matches the LIKE pattern \<open>p\<close>. A percent sign matches any
  sequence of characters, an underscore any one character, and a backslash takes the next
  character of the pattern literally. (A pattern ending in a lone backslash is an error of
  the database; \<open>findAll\<close> ends every pattern with a percent sign.)
\<close>

fun like :: "string \<Rightarrow> string \<Rightarrow> bool" where
  "like [] s = (s = [])"
| "like (p # ps) s =
     (if p = CHR ''%'' then
        like ps s \<or> (case s of [] \<Rightarrow> False | _ # t \<Rightarrow> like (p # ps) t)
      else if p = CHR ''_'' then
        (case s of [] \<Rightarrow> False | _ # t \<Rightarrow> like ps t)
      else if p = CHR 0x5C then
        (case ps of [] \<Rightarrow> False
         | q # qs \<Rightarrow> (case s of [] \<Rightarrow> False | c # t \<Rightarrow> c = q \<and> like qs t))
      else
        (case s of [] \<Rightarrow> False | c # t \<Rightarrow> c = p \<and> like ps t))"

datatype cmp = Eq | Ge | Le | Gt | ILike

text \<open>
  A comparison with NULL, or between a text and a number, is not true. Equality is used on
  keys only (a handle, an id): it holds between equal values of the same type.
\<close>

fun sql_cmp :: "cmp \<Rightarrow> sqlval \<Rightarrow> sqlval \<Rightarrow> bool" where
  "sql_cmp ILike a b =
     (case (a, b) of (SqlText s, SqlText p) \<Rightarrow> like (map lower p) (map lower s) | _ \<Rightarrow> False)"
| "sql_cmp Eq a b = (a \<noteq> SqlNull \<and> a = b)"
| "sql_cmp Ge a b = (case (num_of a, num_of b) of (Some x, Some y) \<Rightarrow> y \<le> x | _ \<Rightarrow> False)"
| "sql_cmp Le a b = (case (num_of a, num_of b) of (Some x, Some y) \<Rightarrow> x \<le> y | _ \<Rightarrow> False)"
| "sql_cmp Gt a b = (case (num_of a, num_of b) of (Some x, Some y) \<Rightarrow> y < x | _ \<Rightarrow> False)"

text \<open>
  ORDER BY, ascending: texts in byte order (the collation of the database is not in the
  source), numbers by value, NULL last.
\<close>

fun str_le :: "string \<Rightarrow> string \<Rightarrow> bool" where
  "str_le [] t = True"
| "str_le (x # xs) [] = False"
| "str_le (x # xs) (y # ys) = ((of_char x :: nat) < of_char y \<or> (x = y \<and> str_le xs ys))"

fun ord_le :: "sqlval \<Rightarrow> sqlval \<Rightarrow> bool" where
  "ord_le a SqlNull = True"
| "ord_le SqlNull b = False"
| "ord_le (SqlText s) (SqlText t) = str_le s t"
| "ord_le a b = (case (num_of a, num_of b) of (Some x, Some y) \<Rightarrow> x \<le> y | _ \<Rightarrow> True)"

fun insert_by :: "string \<Rightarrow> row \<Rightarrow> row list \<Rightarrow> row list" where
  "insert_by c r [] = [r]"
| "insert_by c r (x # xs) =
     (if ord_le (col_val r c) (col_val x c) then r # x # xs else x # insert_by c r xs)"

definition order_by :: "string \<Rightarrow> row list \<Rightarrow> row list" where
  "order_by c rs = foldr (insert_by c) rs []"

subsection \<open>Statements\<close>

text \<open>
  A condition compares a column with a positional parameter \<open>$n\<close> or with an integer
  literal. A statement names its table, the columns it writes or the conjuncts of its WHERE
  clause, and its output list: pairs of a column and the name it is returned under.
\<close>

datatype operand = Param nat | Lit int

datatype cond = Cond string cmp operand

datatype stmt =
    Select source "(string \<times> string) list" "cond list" "string option"
  | Insert table "string list" "(string \<times> string) list"
  | Update table "(string \<times> nat) list" cond "(string \<times> string) list"
  | Delete table cond "(string \<times> string) list"

subsection \<open>The statement texts of the models\<close>

definition Company_create_duplicateCheck_sql :: string where
  \<open>Company_create_duplicateCheck_sql =
     ''SELECT handle\<newline>'' @
     ''           FROM companies\<newline>'' @
     ''           WHERE handle = $1''\<close>

definition Company_create_sql :: string where
  \<open>Company_create_sql =
     ''INSERT INTO companies\<newline>'' @
     ''           (handle, name, description, num_employees, logo_url)\<newline>'' @
     ''           VALUES ($1, $2, $3, $4, $5)\<newline>'' @
     ''           RETURNING handle, name, description, num_employees AS "numEmployees", logo_url AS "logoUrl"''\<close>

definition Company_findAll_select :: string where
  \<open>Company_findAll_select =
     ''SELECT handle, \<newline>'' @
     ''                        name, \<newline>'' @
     ''                        description, \<newline>'' @
     ''                        num_employees AS "numEmployees", \<newline>'' @
     ''                        logo_url AS "logoUrl" \<newline>'' @
     ''                        FROM companies''\<close>

definition Company_get_sql :: string where
  \<open>Company_get_sql =
     ''SELECT handle,\<newline>'' @
     ''                  name,\<newline>'' @
     ''                  description,\<newline>'' @
     ''                  num_employees AS "numEmployees",\<newline>'' @
     ''                  logo_url AS "logoUrl"\<newline>'' @
     ''           FROM companies\<newline>'' @
     ''           WHERE handle = $1''\<close>

definition Company_update_set :: string where
  \<open>Company_update_set =
     ''UPDATE companies \<newline>'' @
     ''                      SET ''\<close>

definition Company_update_where :: string where
  \<open>Company_update_where =
     '' \<newline>'' @
     ''                      WHERE handle = ''\<close>

definition Company_update_returning :: string where
  \<open>Company_update_returning =
     '' \<newline>'' @
     ''                      RETURNING handle, \<newline>'' @
     ''                                name, \<newline>'' @
     ''                                description, \<newline>'' @
     ''                                num_employees AS "numEmployees", \<newline>'' @
     ''                                logo_url AS "logoUrl"''\<close>

definition Company_remove_sql :: string where
  \<open>Company_remove_sql =
     ''DELETE\<newline>'' @
     ''           FROM companies\<newline>'' @
     ''           WHERE handle = $1\<newline>'' @
     ''           RETURNING handle''\<close>

definition Job_create_sql :: string where
  \<open>Job_create_sql =
     ''INSERT INTO jobs (title, salary, equity, company_handle)\<newline>'' @
     ''               VALUES ($1, $2, $3, $4)\<newline>'' @
     ''               RETURNING id, title, salary, equity, company_handle AS "companyHandle"''\<close>

definition Job_findAll_select :: string where
  \<open>Job_findAll_select =
     ''SELECT j.id, j.title, j.salary, j.equity, \<newline>'' @
     ''                    j.company_handle AS "companyHandle", c.name AS "companyName"\<newline>'' @
     ''                    FROM jobs j LEFT JOIN companies AS c ON c.handle = j.company_handle''\<close>

definition Job_get_sql :: string where
  \<open>Job_get_sql =
     ''SELECT id, title, salary, equity, company_handle AS "companyHandle"\<newline>'' @
     ''           FROM jobs WHERE id = $1''\<close>

definition Job_get_company_sql :: string where
  \<open>Job_get_company_sql =
     ''SELECT handle, name, description, num_employees AS "numEmployees",\<newline>'' @
     ''            logo_url AS "logoUrl" FROM companies\<newline>'' @
     ''            WHERE handle = $1''\<close>

definition Job_update_set :: string where
  \<open>Job_update_set =
     ''UPDATE jobs \<newline>'' @
     ''                      SET ''\<close>

definition Job_update_where :: string where
  \<open>Job_update_where =
     '' \<newline>'' @
     ''                      WHERE id = ''\<close>

definition Job_update_returning :: string where
  \<open>Job_update_returning =
     '' \<newline>'' @
     ''                      RETURNING id, \<newline>'' @
     ''                                title, \<newline>'' @
     ''                                salary, \<newline>'' @
     ''                                equity,\<newline>'' @
     ''                                company_handle AS "companyHandle"''\<close>

definition Job_remove_sql :: string where
  \<open>Job_remove_sql =
     ''DELETE FROM jobs WHERE id = $1\<newline>'' @
     ''           RETURNING id''\<close>

subsection \<open>Reading a statement text\<close>

text \<open>The output lists of the statements above.\<close>

definition company_output :: "(string \<times> string) list" where
  "company_output =
     [(''handle'', ''handle''), (''name'', ''name''), (''description'', ''description''),
      (''num_employees'', ''numEmployees''), (''logo_url'', ''logoUrl'')]"

definition job_output :: "(string \<times> string) list" where
  "job_output =
     [(''id'', ''id''), (''title'', ''title''), (''salary'', ''salary''), (''equity'', ''equity''),
      (''company_handle'', ''companyHandle'')]"

definition job_findAll_output :: "(string \<times> string) list" where
  "job_findAll_output =
     [(''j.id'', ''id''), (''j.title'', ''title''), (''j.salary'', ''salary''),
      (''j.equity'', ''equity''), (''j.company_handle'', ''companyHandle''),
      (''c.name'', ''companyName'')]"

text \<open>The statements whose text is fixed, each with what it denotes.\<close>

definition fixed_statements :: "(string \<times> stmt) list" where
  "fixed_statements =
     [(Company_create_duplicateCheck_sql,
         Select (From Companies) [(''handle'', ''handle'')] [Cond ''handle'' Eq (Param 1)] None),
      (Company_create_sql,
         Insert Companies [''handle'', ''name'', ''description'', ''num_employees'', ''logo_url'']
           company_output),
      (Company_get_sql,
         Select (From Companies) company_output [Cond ''handle'' Eq (Param 1)] None),
      (Company_remove_sql,
         Delete Companies (Cond ''handle'' Eq (Param 1)) [(''handle'', ''handle'')]),
      (Job_create_sql,
         Insert Jobs [''title'', ''salary'', ''equity'', ''company_handle''] job_output),
      (Job_get_sql,
         Select (From Jobs) job_output [Cond ''id'' Eq (Param 1)] None),
      (Job_get_company_sql,
         Select (From Companies) company_output [Cond ''handle'' Eq (Param 1)] None),
      (Job_remove_sql,
         Delete Jobs (Cond ''id'' Eq (Param 1)) [(''id'', ''id'')])]"

text \<open>Pieces of text: a prefix taken off, a positional parameter, a quoted name.\<close>

definition strip_prefix :: "string \<Rightarrow> string \<Rightarrow> string option" where
  "strip_prefix p s = (if take (length p) s = p then Some (drop (length p) s) else None)"

definition is_digit :: "char \<Rightarrow> bool" where
  "is_digit c = (c \<in> set ''0123456789'')"

definition digit_val :: "char \<Rightarrow> nat" where
  "digit_val c = length (takeWhile (\<lambda>d. d \<noteq> c) ''0123456789'')"

definition nat_of_digits :: "string \<Rightarrow> nat" where
  "nat_of_digits s = foldl (\<lambda>n c. 10 * n + digit_val c) 0 s"

fun read_param :: "string \<Rightarrow> (nat \<times> string) option" where
  "read_param [] = None"
| "read_param (c # s) =
     (if c = CHR ''$'' \<and> takeWhile is_digit s \<noteq> []
      then Some (nat_of_digits (takeWhile is_digit s), dropWhile is_digit s)
      else None)"

text \<open>The characters up to the closing double quote, and what follows the quote.\<close>

fun read_quoted :: "string \<Rightarrow> (string \<times> string) option" where
  "read_quoted [] = None"
| "read_quoted (c # s) =
     (if c = CHR 0x22 then Some ([], s)
      else (case read_quoted s of None \<Rightarrow> None | Some (q, r) \<Rightarrow> Some (c # q, r)))"

text \<open>One assignment of a SET clause: a quoted column name, an equals sign, a parameter.\<close>

definition read_assignment :: "string \<Rightarrow> ((string \<times> nat) \<times> string) option" where
  "read_assignment s =
     (case strip_prefix [CHR 0x22] s of None \<Rightarrow> None
      | Some s1 \<Rightarrow>
     (case read_quoted s1 of None \<Rightarrow> None
      | Some (c, s2) \<Rightarrow>
     (case strip_prefix ''='' s2 of None \<Rightarrow> None
      | Some s3 \<Rightarrow>
     (case read_param s3 of None \<Rightarrow> None
      | Some (n, s4) \<Rightarrow> Some ((c, n), s4)))))"

text \<open>
  The assignments of a SET clause, separated by a comma and a space, and the text after the
  last one. The first argument bounds the number of assignments read; the length of the text
  is always enough.
\<close>

fun read_assignments :: "nat \<Rightarrow> string \<Rightarrow> ((string \<times> nat) list \<times> string) option" where
  "read_assignments 0 s = None"
| "read_assignments (Suc fuel) s =
     (case read_assignment s of None \<Rightarrow> None
      | Some (a, r) \<Rightarrow>
     (case strip_prefix '', '' r of None \<Rightarrow> Some ([a], r)
      | Some r' \<Rightarrow>
     (case read_assignments fuel r' of None \<Rightarrow> None
      | Some (others, r2) \<Rightarrow> Some (a # others, r2))))"

text \<open>
  An UPDATE of the models: the text up to SET, the assignments, the text up to the key's
  parameter, that parameter, the RETURNING text.
\<close>

definition read_update ::
  "string \<Rightarrow> string \<Rightarrow> string \<Rightarrow> string \<Rightarrow> ((string \<times> nat) list \<times> nat) option" where
  "read_update upd_set upd_where upd_returning text =
     (case strip_prefix upd_set text of None \<Rightarrow> None
      | Some s1 \<Rightarrow>
     (case read_assignments (length s1) s1 of None \<Rightarrow> None
      | Some (sets, s2) \<Rightarrow>
     (case strip_prefix upd_where s2 of None \<Rightarrow> None
      | Some s3 \<Rightarrow>
     (case read_param s3 of None \<Rightarrow> None
      | Some (n, s4) \<Rightarrow> if s4 = upd_returning then Some (sets, n) else None))))"

text \<open>The words of a text, split at single spaces.\<close>

fun words_of :: "string \<Rightarrow> string list" where
  "words_of [] = [[]]"
| "words_of (c # s) =
     (if c = CHR '' '' then [] # words_of s
      else (case words_of s of [] \<Rightarrow> [[c]] | w # ws \<Rightarrow> (c # w) # ws))"

definition read_cmp :: "string \<Rightarrow> cmp option" where
  "read_cmp w = map_of [(''='', Eq), (''>='', Ge), (''<='', Le), (''>'', Gt), (''ILIKE'', ILike)] w"

definition read_operand :: "string \<Rightarrow> operand option" where
  "read_operand w =
     (case read_param w of
        Some (n, r) \<Rightarrow> if r = [] then Some (Param n) else None
      | None \<Rightarrow> if w \<noteq> [] \<and> list_all is_digit w then Some (Lit (int (nat_of_digits w))) else None)"

text \<open>
  The conjuncts of a WHERE clause, each of three words and joined by AND, up to ORDER BY and
  its column.
\<close>

fun read_conds :: "string list \<Rightarrow> (cond list \<times> string) option" where
  "read_conds (c # w # a # k # ws) =
     (case (read_cmp w, read_operand a) of
        (Some m, Some v) \<Rightarrow>
          if k = ''AND'' then
            (case read_conds ws of None \<Rightarrow> None | Some (cds, ob) \<Rightarrow> Some (Cond c m v # cds, ob))
          else if k = ''ORDER'' then
            (case ws of [b, ob] \<Rightarrow> if b = ''BY'' then Some ([Cond c m v], ob) else None
             | _ \<Rightarrow> None)
          else None
      | _ \<Rightarrow> None)"
| "read_conds ws = None"

text \<open>What \<open>findAll\<close> appends to its SELECT: an optional WHERE clause, then ORDER BY.\<close>

definition read_tail :: "string \<Rightarrow> (cond list \<times> string) option" where
  "read_tail s =
     (case strip_prefix '' ORDER BY '' s of
        Some ob \<Rightarrow> if ob \<noteq> [] \<and> CHR '' '' \<notin> set ob then Some ([], ob) else None
      | None \<Rightarrow>
     (case strip_prefix '' WHERE '' s of None \<Rightarrow> None
      | Some w \<Rightarrow> read_conds (words_of w)))"

text \<open>A text that is none of the statements of the models is refused.\<close>

definition read_sql :: "string \<Rightarrow> stmt option" where
  "read_sql text =
     (case map_of fixed_statements text of Some st \<Rightarrow> Some st
      | None \<Rightarrow>
     (case strip_prefix Company_findAll_select text of
        Some tail \<Rightarrow>
          (case read_tail tail of None \<Rightarrow> None
           | Some (conds, ob) \<Rightarrow> Some (Select (From Companies) company_output conds (Some ob)))
      | None \<Rightarrow>
     (case strip_prefix Job_findAll_select text of
        Some tail \<Rightarrow>
          (case read_tail tail of None \<Rightarrow> None
           | Some (conds, ob) \<Rightarrow>
               Some (Select JobsLeftJoinCompanies job_findAll_output conds (Some ob)))
      | None \<Rightarrow>
     (case read_update Company_update_set Company_update_where Company_update_returning text of
        Some (sets, n) \<Rightarrow>
          Some (Update Companies sets (Cond ''handle'' Eq (Param n)) company_output)
      | None \<Rightarrow>
     (case read_update Job_update_set Job_update_where Job_update_returning text of
        Some (sets, n) \<Rightarrow> Some (Update Jobs sets (Cond ''id'' Eq (Param n)) job_output)
      | None \<Rightarrow> None)))))"

subsection \<open>Running a statement\<close>

text \<open>
  The rows a SELECT ranges over. In the left join of \<open>findAll\<close> every job is paired with
  the companies whose handle is its \<open>company_handle\<close>, or with NULLs when there is none;
  a column can be named with its alias (\<open>j.\<close>, \<open>c.\<close>) or, as no name is in both tables,
  without.
\<close>

definition aliased :: "string \<Rightarrow> row \<Rightarrow> row" where
  "aliased a r = map (\<lambda>(c, v). (a @ ''.'' @ c, v)) r @ r"

fun source_columns :: "source \<Rightarrow> string list" where
  "source_columns (From t) = columns t"
| "source_columns JobsLeftJoinCompanies =
     map (\<lambda>c. ''j.'' @ c) (columns Jobs) @ columns Jobs
       @ map (\<lambda>c. ''c.'' @ c) (columns Companies) @ columns Companies"

fun source_rows :: "store \<Rightarrow> source \<Rightarrow> row list" where
  "source_rows db (From t) = rows_of db t"
| "source_rows db JobsLeftJoinCompanies =
     concat (map (\<lambda>j.
       let cs = filter (\<lambda>c. sql_cmp Eq (col_val c ''handle'') (col_val j ''company_handle''))
                  (companies db)
       in if cs = []
          then [aliased ''j'' j @ aliased ''c'' (map (\<lambda>c. (c, SqlNull)) (columns Companies))]
          else map (\<lambda>c. aliased ''j'' j @ aliased ''c'' c) cs) (jobs db))"

fun operand_val :: "sqlval list \<Rightarrow> operand \<Rightarrow> sqlval option" where
  "operand_val params (Param n) =
     (if 1 \<le> n \<and> n \<le> length params then Some (params ! (n - 1)) else None)"
| "operand_val params (Lit i) = Some (SqlInt i)"

text \<open>
  A condition is well formed when its column exists and its parameter was passed and can be
  compared with the column.
\<close>

fun cond_ok :: "string list \<Rightarrow> sqlval list \<Rightarrow> cond \<Rightarrow> bool" where
  "cond_ok cs params (Cond c m (Param n)) =
     (c \<in> set cs \<and> 1 \<le> n \<and> n \<le> length params \<and> comparable (column_type c) (params ! (n - 1)))"
| "cond_ok cs params (Cond c m (Lit i)) = (c \<in> set cs)"

fun holds :: "sqlval list \<Rightarrow> row \<Rightarrow> cond \<Rightarrow> bool" where
  "holds params r (Cond c m a) =
     (case operand_val params a of None \<Rightarrow> False | Some v \<Rightarrow> sql_cmp m (col_val r c) v)"

definition output_ok :: "string list \<Rightarrow> (string \<times> string) list \<Rightarrow> bool" where
  "output_ok cs out = list_all (\<lambda>(c, n). c \<in> set cs) out"

definition project :: "(string \<times> string) list \<Rightarrow> row \<Rightarrow> row" where
  "project out r = map (\<lambda>(c, n). (n, col_val r c)) out"

text \<open>
  \<open>run\<close> yields the result rows and the store after the statement, or \<open>None\<close> when the
  database raises: a column that the table does not have, a parameter that was not passed or
  that the type of its column does not take, a column assigned twice, or a write that the
  schema refuses. A statement that names a wrong column, or has a parameter of the wrong
  type, is refused whether or not a row matches. An UPDATE or DELETE that matches no row
  changes nothing and the schema is not consulted. An INSERT into \<open>jobs\<close> takes the next
  id of the store.
\<close>

fun run :: "schema \<Rightarrow> store \<Rightarrow> stmt \<Rightarrow> sqlval list \<Rightarrow> (row list \<times> store) option" where
  "run schema db (Select src out conds ob) params =
     (if output_ok (source_columns src) out
         \<and> list_all (cond_ok (source_columns src) params) conds
         \<and> (case ob of None \<Rightarrow> True | Some c \<Rightarrow> c \<in> set (source_columns src))
      then Some (map (project out)
                   ((case ob of None \<Rightarrow> id | Some c \<Rightarrow> order_by c)
                      (filter (\<lambda>r. list_all (holds params r) conds) (source_rows db src))),
                 db)
      else None)"
| "run schema db (Insert t cs out) params =
     (if list_all (\<lambda>c. c \<in> set (columns t)) cs \<and> distinct cs \<and> length params = length cs
         \<and> list_all (\<lambda>(c, v). fits (column_type c) v) (zip cs params)
         \<and> output_ok (columns t) out
      then
        let r = map (\<lambda>c. (c, case map_of (zip cs params) c of
                               Some v \<Rightarrow> v
                             | None \<Rightarrow> if t = Jobs \<and> c = ''id'' then SqlInt (next_job_id db)
                                       else SqlNull))
                  (columns t);
            db' = (case t of
                     Companies \<Rightarrow> db\<lparr>companies := companies db @ [r]\<rparr>
                   | Jobs \<Rightarrow> db\<lparr>jobs := jobs db @ [r], next_job_id := next_job_id db + 1\<rparr>)
        in (case schema db db' of None \<Rightarrow> None | Some db'' \<Rightarrow> Some ([project out r], db''))
      else None)"
| "run schema db (Update t sets cd out) params =
     (if list_all (\<lambda>(c, n). c \<in> set (columns t) \<and> 1 \<le> n \<and> n \<le> length params
                              \<and> fits (column_type c) (params ! (n - 1))) sets
         \<and> distinct (map fst sets) \<and> cond_ok (columns t) params cd \<and> output_ok (columns t) out
      then
        let hit = filter (\<lambda>r. holds params r cd) (rows_of db t);
            assign = (\<lambda>r. map (\<lambda>(c, v). (c, case map_of sets c of
                                               None \<Rightarrow> v | Some n \<Rightarrow> params ! (n - 1))) r)
        in if hit = [] then Some ([], db)
           else (case schema db (with_rows db t
                         (map (\<lambda>r. if holds params r cd then assign r else r) (rows_of db t))) of
                   None \<Rightarrow> None
                 | Some db' \<Rightarrow> Some (map (\<lambda>r. project out (assign r)) hit, db'))
      else None)"
| "run schema db (Delete t cd out) params =
     (if cond_ok (columns t) params cd \<and> output_ok (columns t) out
      then
        let hit = filter (\<lambda>r. holds params r cd) (rows_of db t)
        in if hit = [] then Some ([], db)
           else (case schema db (with_rows db t
                         (filter (\<lambda>r. \<not> holds params r cd) (rows_of db t))) of
                   None \<Rightarrow> None
                 | Some db' \<Rightarrow> Some (map (project out) hit, db'))
      else None)"

text \<open>
  \<^verbatim>\<open>db.query(text, values)\<close>: the call is recorded, the text is read and the statement
  run. The result is the rows (\<^verbatim>\<open>result.rows\<close>) or the failure the call throws.
\<close>

definition db_query ::
  "schema \<Rightarrow> store \<Rightarrow> string \<Rightarrow> sqlval list \<Rightarrow> (error + row list) \<times> store" where
  "db_query schema db text params =
     (case read_sql text of
        None \<Rightarrow> (Inl StorageError, db\<lparr>issued := issued db @ [(text, params)]\<rparr>)
      | Some st \<Rightarrow>
          (case run schema db st params of
             None \<Rightarrow> (Inl StorageError, db\<lparr>issued := issued db @ [(text, params)]\<rparr>)
           | Some (rows, db') \<Rightarrow> (Inr rows, db'\<lparr>issued := issued db @ [(text, params)]\<rparr>)))"

text \<open>\<^verbatim>\<open>rows[0]\<close>: the first row, or \<^verbatim>\<open>undefined\<close>.\<close>

definition first_row :: "row list \<Rightarrow> row option" where
  "first_row rows = (case rows of [] \<Rightarrow> None | r # _ \<Rightarrow> Some r)"

text \<open>A value that may be \<^verbatim>\<open>undefined\<close>, as a parameter: the driver sends NULL for it.\<close>

definition int_param :: "int option \<Rightarrow> sqlval" where
  "int_param v = (case v of None \<Rightarrow> SqlNull | Some i \<Rightarrow> SqlInt i)"

definition text_param :: "string option \<Rightarrow> sqlval" where
  "text_param v = (case v of None \<Rightarrow> SqlNull | Some s \<Rightarrow> SqlText s)"

definition numeric_param :: "rat option \<Rightarrow> sqlval" where
  "numeric_param v = (case v of None \<Rightarrow> SqlNull | Some q \<Rightarrow> SqlNumeric q)"

section \<open>models/company.js\<close>

text \<open>
  Every function takes the schema and the store and returns its result or the error it
  throws, with the store afterwards. The arguments of \<open>create\<close> are the fields of its
  object argument.
\<close>

definition Company_create ::
  "schema \<Rightarrow> store \<Rightarrow> string \<Rightarrow> string \<Rightarrow> string \<Rightarrow> int option \<Rightarrow> string option
     \<Rightarrow> (error + row option) \<times> store" where
  "Company_create schema db handle name description numEmployees logoUrl =
     (case db_query schema db Company_create_duplicateCheck_sql [SqlText handle] of
        (Inl e, db1) \<Rightarrow> (Inl e, db1)
      | (Inr duplicateCheck, db1) \<Rightarrow>
          if first_row duplicateCheck \<noteq> None
          then (Inl (BadRequestError (''Duplicate company: '' @ handle)), db1)
          else
            (case db_query schema db1 Company_create_sql
                    [SqlText handle, SqlText name, SqlText description,
                     int_param numEmployees, text_param logoUrl] of
               (Inl e, db2) \<Rightarrow> (Inl e, db2)
             | (Inr result, db2) \<Rightarrow> (Inr (first_row result), db2)))"

text \<open>
  The filters of \<open>findAll\<close>: a name and two integers, each possibly \<^verbatim>\<open>undefined\<close>.
  A string is truthy when it is defined and not empty, a number when it is defined and not
  0; \<^verbatim>\<open>a > b\<close> is false when either side is \<^verbatim>\<open>undefined\<close>.
\<close>

record company_filters =
  name :: "string option"
  minEmployees :: "int option"
  maxEmployees :: "int option"

definition truthy_string :: "string option \<Rightarrow> bool" where
  "truthy_string v = (case v of None \<Rightarrow> False | Some s \<Rightarrow> s \<noteq> [])"

definition truthy_number :: "int option \<Rightarrow> bool" where
  "truthy_number v = (case v of None \<Rightarrow> False | Some n \<Rightarrow> n \<noteq> 0)"

definition js_gt :: "int option \<Rightarrow> int option \<Rightarrow> bool" where
  "js_gt a b = (case (a, b) of (Some x, Some y) \<Rightarrow> y < x | _ \<Rightarrow> False)"

text \<open>
  The first part of \<open>findAll\<close>, up to the call of \<^verbatim>\<open>db.query\<close>: the query text and
  \<^verbatim>\<open>qVal\<close>, or the error thrown. Each \<^verbatim>\<open>push\<close> appends to the array.
\<close>

definition Company_findAll_query :: "company_filters \<Rightarrow> error + string \<times> sqlval list" where
  "Company_findAll_query filters =
     (if js_gt (minEmployees filters) (maxEmployees filters)
      then Inl (BadRequestError ''minEmployees cannot be greater than maxEmployees'')
      else
        let whereClauses = []; qVal = [];
            (whereClauses, qVal) =
              (case name filters of
                 Some n \<Rightarrow>
                   if n \<noteq> [] then
                     (let qVal = qVal @ [SqlText (''%'' @ n @ ''%'')]
                      in (whereClauses @ [''name ILIKE $'' @ toString_nat (length qVal)], qVal))
                   else (whereClauses, qVal)
               | None \<Rightarrow> (whereClauses, qVal));
            (whereClauses, qVal) =
              (case minEmployees filters of
                 Some a \<Rightarrow>
                   if a \<noteq> 0 then
                     (let qVal = qVal @ [SqlInt a]
                      in (whereClauses @ [''num_employees >= $'' @ toString_nat (length qVal)], qVal))
                   else (whereClauses, qVal)
               | None \<Rightarrow> (whereClauses, qVal));
            (whereClauses, qVal) =
              (case maxEmployees filters of
                 Some b \<Rightarrow>
                   if b \<noteq> 0 then
                     (let qVal = qVal @ [SqlInt b]
                      in (whereClauses @ [''num_employees <= $'' @ toString_nat (length qVal)], qVal))
                   else (whereClauses, qVal)
               | None \<Rightarrow> (whereClauses, qVal));
            query = Company_findAll_select
                      @ (if length whereClauses > 0
                         then '' WHERE '' @ join '' AND '' whereClauses else [])
                      @ '' ORDER BY name''
        in Inr (query, qVal))"

definition Company_findAll ::
  "schema \<Rightarrow> store \<Rightarrow> company_filters \<Rightarrow> (error + row list) \<times> store" where
  "Company_findAll schema db filters =
     (case Company_findAll_query filters of
        Inl e \<Rightarrow> (Inl e, db)
      | Inr (query, qVal) \<Rightarrow> db_query schema db query qVal)"

definition Company_get :: "schema \<Rightarrow> store \<Rightarrow> string \<Rightarrow> (error + row) \<times> store" where
  "Company_get schema db handle =
     (case db_query schema db Company_get_sql [SqlText handle] of
        (Inl e, db1) \<Rightarrow> (Inl e, db1)
      | (Inr companyRes, db1) \<Rightarrow>
          (case first_row companyRes of
             None \<Rightarrow> (Inl (NotFoundError (''No company: '' @ handle)), db1)
           | Some company \<Rightarrow> (Inr company, db1)))"

text \<open>
  The second argument that \<open>update\<close> passes to the helper: the object literal
  \<^verbatim>\<open>{numEmployees: "num_employees", logoUrl: "logo_url"}\<close>, as the helper reads it.
\<close>

definition Company_update_jsToSql :: "string \<Rightarrow> string option" where
  "Company_update_jsToSql =
     object_literal [''numEmployees'' \<mapsto> ''num_employees'', ''logoUrl'' \<mapsto> ''logo_url'']"

definition Company_update ::
  "schema \<Rightarrow> store \<Rightarrow> string \<Rightarrow> (string \<times> sqlval) list \<Rightarrow> (error + row) \<times> store" where
  "Company_update schema db handle data =
     (case sqlForPartialUpdate data Company_update_jsToSql of
        Inl e \<Rightarrow> (Inl e, db)
      | Inr u \<Rightarrow>
          let handleVarIdx = ''$'' @ toString_nat (length (values u) + 1);
              querySql = Company_update_set @ setCols u @ Company_update_where @ handleVarIdx
                           @ Company_update_returning
          in (case db_query schema db querySql (values u @ [SqlText handle]) of
                (Inl e, db1) \<Rightarrow> (Inl e, db1)
              | (Inr result, db1) \<Rightarrow>
                  (case first_row result of
                     None \<Rightarrow> (Inl (NotFoundError (''No company: '' @ handle)), db1)
                   | Some company \<Rightarrow> (Inr company, db1))))"

definition Company_remove :: "schema \<Rightarrow> store \<Rightarrow> string \<Rightarrow> (error + unit) \<times> store" where
  "Company_remove schema db handle =
     (case db_query schema db Company_remove_sql [SqlText handle] of
        (Inl e, db1) \<Rightarrow> (Inl e, db1)
      | (Inr result, db1) \<Rightarrow>
          (case first_row result of
             None \<Rightarrow> (Inl (NotFoundError (''No company: '' @ handle)), db1)
           | Some company \<Rightarrow> (Inr (), db1)))"

section \<open>models/job.js\<close>

definition Job_create ::
  "schema \<Rightarrow> store \<Rightarrow> string \<Rightarrow> int option \<Rightarrow> rat option \<Rightarrow> string
     \<Rightarrow> (error + row option) \<times> store" where
  "Job_create schema db title salary equity companyHandle =
     (case db_query schema db Job_create_sql
             [SqlText title, int_param salary, numeric_param equity, SqlText companyHandle] of
        (Inl e, db1) \<Rightarrow> (Inl e, db1)
      | (Inr result, db1) \<Rightarrow> (Inr (first_row result), db1))"

record job_filters =
  minSalary :: "int option"
  hasEquity :: "bool option"
  title :: "string option"

definition truthy_bool :: "bool option \<Rightarrow> bool" where
  "truthy_bool v = (case v of None \<Rightarrow> False | Some b \<Rightarrow> b)"

definition Job_findAll_query :: "job_filters \<Rightarrow> string \<times> sqlval list" where
  "Job_findAll_query filters =
     (let whereClauses = []; qVal = [];
          (whereClauses, qVal) =
            (case title filters of
               Some t \<Rightarrow>
                 if t \<noteq> [] then
                   (let qVal = qVal @ [SqlText (''%'' @ t @ ''%'')]
                    in (whereClauses @ [''title ILIKE $'' @ toString_nat (length qVal)], qVal))
                 else (whereClauses, qVal)
             | None \<Rightarrow> (whereClauses, qVal));
          (whereClauses, qVal) =
            (case minSalary filters of
               Some a \<Rightarrow>
                 if a \<noteq> 0 then
                   (let qVal = qVal @ [SqlInt a]
                    in (whereClauses @ [''salary >= $'' @ toString_nat (length qVal)], qVal))
                 else (whereClauses, qVal)
             | None \<Rightarrow> (whereClauses, qVal));
          whereClauses =
            (if truthy_bool (hasEquity filters) then whereClauses @ [''equity > 0'']
             else whereClauses);
          query = Job_findAll_select
                    @ (if length whereClauses > 0
                       then '' WHERE '' @ join '' AND '' whereClauses else [])
                    @ '' ORDER BY title''
      in (query, qVal))"

definition Job_findAll :: "schema \<Rightarrow> store \<Rightarrow> job_filters \<Rightarrow> (error + row list) \<times> store" where
  "Job_findAll schema db filters =
     (case Job_findAll_query filters of (query, qVal) \<Rightarrow> db_query schema db query qVal)"

text \<open>
  The result of \<open>get\<close>: the job row with \<^verbatim>\<open>companyHandle\<close> deleted, and under
  \<^verbatim>\<open>company\<close> the first row of the second query (or \<^verbatim>\<open>undefined\<close>).
\<close>

record job_detail =
  job :: row
  company :: "row option"

definition Job_get :: "schema \<Rightarrow> store \<Rightarrow> int \<Rightarrow> (error + job_detail) \<times> store" where
  "Job_get schema db job_id =
     (case db_query schema db Job_get_sql [SqlInt job_id] of
        (Inl e, db1) \<Rightarrow> (Inl e, db1)
      | (Inr jobRes, db1) \<Rightarrow>
          (case first_row jobRes of
             None \<Rightarrow> (Inl (NotFoundError (''No job: '' @ toString_int job_id)), db1)
           | Some found \<Rightarrow>
               (case db_query schema db1 Job_get_company_sql [col_val found ''companyHandle''] of
                  (Inl e, db2) \<Rightarrow> (Inl e, db2)
                | (Inr companiesRes, db2) \<Rightarrow>
                    (Inr \<lparr>job = filter (\<lambda>(k, v). k \<noteq> ''companyHandle'') found,
                          company = first_row companiesRes\<rparr>, db2))))"

text \<open>The second argument that \<open>update\<close> passes to the helper: the object literal \<^verbatim>\<open>{}\<close>.\<close>

definition Job_update_jsToSql :: "string \<Rightarrow> string option" where
  "Job_update_jsToSql = object_literal Map.empty"

definition Job_update ::
  "schema \<Rightarrow> store \<Rightarrow> int \<Rightarrow> (string \<times> sqlval) list \<Rightarrow> (error + row) \<times> store" where
  "Job_update schema db job_id data =
     (case sqlForPartialUpdate data Job_update_jsToSql of
        Inl e \<Rightarrow> (Inl e, db)
      | Inr u \<Rightarrow>
          let idVarIdx = ''$'' @ toString_nat (length (values u) + 1);
              querySql = Job_update_set @ setCols u @ Job_update_where @ idVarIdx
                           @ Job_update_returning
          in (case db_query schema db querySql (values u @ [SqlInt job_id]) of
                (Inl e, db1) \<Rightarrow> (Inl e, db1)
              | (Inr result, db1) \<Rightarrow>
                  (case first_row result of
                     None \<Rightarrow> (Inl (NotFoundError (''No job: '' @ toString_int job_id)), db1)
                   | Some updated \<Rightarrow> (Inr updated, db1))))"

definition Job_remove :: "schema \<Rightarrow> store \<Rightarrow> int \<Rightarrow> (error + unit) \<times> store" where
  "Job_remove schema db job_id =
     (case db_query schema db Job_remove_sql [SqlInt job_id] of
        (Inl e, db1) \<Rightarrow> (Inl e, db1)
      | (Inr result, db1) \<Rightarrow>
          (case first_row result of
             None \<Rightarrow> (Inl (NotFoundError (''No job: '' @ toString_int job_id)), db1)
           | Some removed \<Rightarrow> (Inr (), db1)))"

section \<open>The records of a store\<close>

text \<open>A handle, or an id, identifies a record when a row of the table has it as its key.\<close>

definition has_company :: "store \<Rightarrow> string \<Rightarrow> bool" where
  "has_company db h = list_ex (\<lambda>r. col_val r ''handle'' = SqlText h) (companies db)"

definition has_job :: "store \<Rightarrow> int \<Rightarrow> bool" where
  "has_job db k = list_ex (\<lambda>r. col_val r ''id'' = SqlInt k) (jobs db)"

section \<open>A schema and a store to run the models on\<close>

text \<open>
  Modelled from the spec: the constraints that the specification names (section 3). The
  handle of a company is unique, and the \<open>company_handle\<close> of a job is the handle of a
  company. A write that breaks either is refused; there are no referential actions.
\<close>

definition spec_schema :: schema where
  "spec_schema old new =
     (if distinct (map (\<lambda>c. col_val c ''handle'') (companies new))
         \<and> list_all (\<lambda>j. col_val j ''company_handle''
                             \<in> set (map (\<lambda>c. col_val c ''handle'') (companies new)))
              (jobs new)
      then Some new else None)"

text \<open>
  Two companies and the three jobs of the route tests (\<^verbatim>\<open>routes/jobs.test.js\<close>), all
  of the first company.
\<close>

definition test_store :: store where
  "test_store =
     \<lparr>companies =
        [[(''handle'', SqlText ''c1''), (''name'', SqlText ''C1''),
          (''description'', SqlText ''Desc1''), (''num_employees'', SqlInt 1),
          (''logo_url'', SqlText ''http://c1.img'')],
         [(''handle'', SqlText ''c2''), (''name'', SqlText ''C2''),
          (''description'', SqlText ''Desc2''), (''num_employees'', SqlInt 2),
          (''logo_url'', SqlText ''http://c2.img'')]],
      jobs =
        [[(''id'', SqlInt 1), (''title'', SqlText ''J1''), (''salary'', SqlInt 1),
          (''equity'', SqlNumeric (1 / 10)), (''company_handle'', SqlText ''c1'')],
         [(''id'', SqlInt 2), (''title'', SqlText ''J2''), (''salary'', SqlInt 2),
          (''equity'', SqlNumeric (2 / 10)), (''company_handle'', SqlText ''c1'')],
         [(''id'', SqlInt 3), (''title'', SqlText ''J3''), (''salary'', SqlInt 3),
          (''equity'', SqlNull), (''company_handle'', SqlText ''c1'')]],
      next_job_id = 4,
      issued = []\<rparr>"

section \<open>Properties of the partial-update builder\<close>

lemma length_map_idx: "length (map_idx f idx xs) = length xs"
  by (induction xs arbitrary: idx) simp_all

lemma nth_map_idx: "i < length xs \<Longrightarrow> map_idx f idx xs ! i = f (xs ! i) (idx + i)"
proof (induction xs arbitrary: idx i)
  case Nil
  then show ?case by simp
next
  case (Cons x xs)
  show ?case
  proof (cases i)
    case 0
    then show ?thesis by simp
  next
    case (Suc j)
    with Cons.prems have "j < length xs" by simp
    from Cons.IH [OF this, of "idx + 1"] Suc show ?thesis by simp
  qed
qed

lemma length_cols: "length (cols keys jsToSql) = length keys"
  by (simp add: cols_def length_map_idx)

lemma nth_cols:
  "i < length keys \<Longrightarrow>
   cols keys jsToSql ! i =
     [CHR 0x22] @ js_or (jsToSql (keys ! i)) (keys ! i) @ [CHR 0x22] @ ''=$'' @ toString_nat (i + 1)"
  by (simp add: cols_def nth_map_idx)

text \<open>The helper's own test, \<^verbatim>\<open>works with valid input\<close>.\<close>

lemma sqlForPartialUpdate_test:
  "sqlForPartialUpdate
     [(''firstName'', ''John''), (''lastName'', ''Doe''), (''age'', ''30'')]
     [''firstName'' \<mapsto> ''first_name'', ''lastName'' \<mapsto> ''last_name'']
   = Inr \<lparr>setCols = [CHR 0x22] @ ''first_name'' @ [CHR 0x22] @ ''=$1, '' @
                      [CHR 0x22] @ ''last_name'' @ [CHR 0x22] @ ''=$2, '' @
                      [CHR 0x22] @ ''age'' @ [CHR 0x22] @ ''=$3'',
           values = [''John'', ''Doe'', ''30'']\<rparr>"
  by (simp add: sqlForPartialUpdate_def cols_def js_or_def toString_nat.simps digit_char_def)

text \<open>
  C1. For a non-empty field map \<open>F\<close> and any translation table \<open>T\<close> the builder succeeds;
  its \<open>setCols\<close> is the fragments \<open>cols\<close> joined by a comma and a space; there are exactly
  \<open>|F|\<close> fragments; the \<open>i\<close>-th (from 0) is the quoted column name of the \<open>i\<close>-th key,
  resolved through \<open>T\<close>, then \<open>=$\<close> and the placeholder number \<open>i + 1\<close>; and
  \<open>values\<close> is the values of \<open>F\<close> in the same order.
\<close>

theorem sqlForPartialUpdate_builds_assignments:
  assumes "F \<noteq> []"
  shows "\<exists>frags. sqlForPartialUpdate F T = Inr \<lparr>setCols = join '', '' frags, values = map snd F\<rparr>
           \<and> length frags = length F
           \<and> (\<forall>i < length F. frags ! i =
                  [CHR 0x22] @ js_or (T (fst (F ! i))) (fst (F ! i)) @ [CHR 0x22]
                    @ ''=$'' @ toString_nat (i + 1))"
proof -
  let ?frags = "cols (map fst F) T"
  from assms have "sqlForPartialUpdate F T = Inr \<lparr>setCols = join '', '' ?frags, values = map snd F\<rparr>"
    by (simp add: sqlForPartialUpdate_def)
  moreover have "length ?frags = length F"
    by (simp add: length_cols)
  moreover have "\<forall>i < length F. ?frags ! i =
      [CHR 0x22] @ js_or (T (fst (F ! i))) (fst (F ! i)) @ [CHR 0x22] @ ''=$'' @ toString_nat (i + 1)"
    by (simp add: nth_cols)
  ultimately show ?thesis by blast
qed

theorem sqlForPartialUpdate_builds_assignments_witness:
  "[(''name'', 1::int), (''numEmployees'', 2)] \<noteq> []
   \<and> (\<exists>frags. sqlForPartialUpdate [(''name'', 1::int), (''numEmployees'', 2)]
                   [''numEmployees'' \<mapsto> ''num_employees'']
                 = Inr \<lparr>setCols = join '', '' frags, values = [1, 2]\<rparr>
         \<and> length frags = 2
         \<and> frags ! 0 = [CHR 0x22] @ ''name'' @ [CHR 0x22] @ ''=$1''
         \<and> frags ! 1 = [CHR 0x22] @ ''num_employees'' @ [CHR 0x22] @ ''=$2'')"
proof -
  have ne: "[(''name'', 1::int), (''numEmployees'', 2)] \<noteq> []" by simp
  from sqlForPartialUpdate_builds_assignments
         [OF ne, of "[''numEmployees'' \<mapsto> ''num_employees'']"]
  obtain frags where
    r: "sqlForPartialUpdate [(''name'', 1::int), (''numEmployees'', 2)]
          [''numEmployees'' \<mapsto> ''num_employees'']
        = Inr \<lparr>setCols = join '', '' frags, values = map snd [(''name'', 1::int), (''numEmployees'', 2)]\<rparr>"
    and l: "length frags = length [(''name'', 1::int), (''numEmployees'', 2)]"
    and f: "\<forall>i < length [(''name'', 1::int), (''numEmployees'', 2)]. frags ! i =
              [CHR 0x22] @ js_or ([''numEmployees'' \<mapsto> ''num_employees'']
                                   (fst ([(''name'', 1::int), (''numEmployees'', 2)] ! i)))
                                 (fst ([(''name'', 1::int), (''numEmployees'', 2)] ! i))
                @ [CHR 0x22] @ ''=$'' @ toString_nat (i + 1)"
    by blast
  from f have "frags ! 0 = [CHR 0x22] @ ''name'' @ [CHR 0x22] @ ''=$1''"
    by (simp add: js_or_def toString_nat.simps digit_char_def)
  moreover from f have "frags ! 1 = [CHR 0x22] @ ''num_employees'' @ [CHR 0x22] @ ''=$2''"
    by (simp add: js_or_def toString_nat.simps digit_char_def)
  ultimately show ?thesis using r l by auto
qed

text \<open>
  C4. When the lookup of a key \<open>k\<close> of \<open>F\<close> in the translation table is absent
  (\<^verbatim>\<open>undefined\<close>) or the empty string, the builder does not fail and the fragment for
  \<open>k\<close> quotes \<open>k\<close> itself.
\<close>

theorem sqlForPartialUpdate_fallback:
  assumes "i < length F" and "fst (F ! i) = k" and "T k = None \<or> T k = Some []"
  shows "sqlForPartialUpdate F T
           = Inr \<lparr>setCols = join '', '' (cols (map fst F) T), values = map snd F\<rparr>
         \<and> cols (map fst F) T ! i = [CHR 0x22] @ k @ [CHR 0x22] @ ''=$'' @ toString_nat (i + 1)"
proof -
  from assms(1) have "F \<noteq> []" by auto
  then have "sqlForPartialUpdate F T
      = Inr \<lparr>setCols = join '', '' (cols (map fst F) T), values = map snd F\<rparr>"
    by (simp add: sqlForPartialUpdate_def)
  moreover from assms(3) have "js_or (T k) k = k"
    by (auto simp: js_or_def)
  with assms(1,2) have "cols (map fst F) T ! i
      = [CHR 0x22] @ k @ [CHR 0x22] @ ''=$'' @ toString_nat (i + 1)"
    by (simp add: nth_cols)
  ultimately show ?thesis by simp
qed

text \<open>The helper's own test \<^verbatim>\<open>handles jsToSql with undefined values\<close>, second key.\<close>

theorem sqlForPartialUpdate_fallback_witness:
  "(1::nat) < length [(''firstName'', ''John''), (''lastName'', ''Doe''), (''age'', ''30'')]
   \<and> fst ([(''firstName'', ''John''), (''lastName'', ''Doe''), (''age'', ''30'')] ! 1) = ''lastName''
   \<and> [''firstName'' \<mapsto> ''first_name''] ''lastName'' = None
   \<and> cols [''firstName'', ''lastName'', ''age''] [''firstName'' \<mapsto> ''first_name''] ! 1
       = [CHR 0x22] @ ''lastName'' @ [CHR 0x22] @ ''=$2''
   \<and> setCols (projr (sqlForPartialUpdate
         [(''firstName'', ''John''), (''lastName'', ''Doe''), (''age'', ''30'')]
         [''firstName'' \<mapsto> ''first_name'']))
       = [CHR 0x22] @ ''first_name'' @ [CHR 0x22] @ ''=$1, '' @
         [CHR 0x22] @ ''lastName'' @ [CHR 0x22] @ ''=$2, '' @
         [CHR 0x22] @ ''age'' @ [CHR 0x22] @ ''=$3''"
  using sqlForPartialUpdate_fallback
          [of 1 "[(''firstName'', ''John''), (''lastName'', ''Doe''), (''age'', ''30'')]"
              "''lastName''" "[''firstName'' \<mapsto> ''first_name'']"]
  by (simp add: cols_def js_or_def toString_nat.simps digit_char_def)

section \<open>Reading back the text of the models' statements\<close>

subsection \<open>Numbers and assignments\<close>

text \<open>A number printed by \<open>toString_nat\<close> is read back by \<open>nat_of_digits\<close>.\<close>

lemma digit_char_props:
  assumes "d < 10"
  shows "is_digit (digit_char d)" and "digit_val (digit_char d) = d"
proof -
  from assms have "d \<in> {0, 1, 2, 3, 4, 5, 6, 7, 8, 9}" by auto
  then show "is_digit (digit_char d)" and "digit_val (digit_char d) = d"
    by (auto simp: digit_char_def is_digit_def digit_val_def)
qed

lemma toString_nat_digits: "list_all is_digit (toString_nat n)"
proof (induction n rule: toString_nat.induct)
  case (1 n)
  show ?case
  proof (cases "10 \<le> n")
    case True
    with 1 show ?thesis
      by (subst toString_nat.simps) (simp add: digit_char_props)
  next
    case False
    then show ?thesis
      by (subst toString_nat.simps) (simp add: digit_char_props)
  qed
qed

lemma toString_nat_nonempty: "toString_nat n \<noteq> []"
  by (subst toString_nat.simps) simp

lemma nat_of_digits_snoc: "nat_of_digits (s @ [c]) = 10 * nat_of_digits s + digit_val c"
  by (simp add: nat_of_digits_def)

lemma nat_of_digits_toString: "nat_of_digits (toString_nat n) = n"
proof (induction n rule: toString_nat.induct)
  case (1 n)
  show ?case
  proof (cases "10 \<le> n")
    case True
    with 1 have "nat_of_digits (toString_nat (n div 10)) = n div 10" by simp
    with True show ?thesis
      by (subst toString_nat.simps) (simp add: nat_of_digits_snoc digit_char_props)
  next
    case False
    then show ?thesis
      by (subst toString_nat.simps) (simp add: nat_of_digits_def digit_char_props)
  qed
qed

lemma read_param_toString:
  assumes "takeWhile is_digit r = []"
  shows "read_param (''$'' @ toString_nat n @ r) = Some (n, r)"
proof -
  have all: "\<And>x. x \<in> set (toString_nat n) \<Longrightarrow> is_digit x"
    using toString_nat_digits [of n] by (simp add: list_all_iff)
  from assms have d: "dropWhile is_digit r = r"
    by (simp add: takeWhile_eq_Nil_iff dropWhile_eq_self_iff)
  from all assms d show ?thesis
    by (simp add: toString_nat_nonempty nat_of_digits_toString)
qed

lemma strip_prefix_append: "strip_prefix p (p @ s) = Some s"
  by (simp add: strip_prefix_def)

text \<open>A fragment of the builder is read back as its column and its parameter.\<close>

lemma read_quoted_closed:
  "CHR 0x22 \<notin> set c \<Longrightarrow> read_quoted (c @ CHR 0x22 # r) = Some (c, r)"
  by (induction c) auto

lemma read_assignment_text:
  assumes "CHR 0x22 \<notin> set c" and "takeWhile is_digit r = []"
  shows "read_assignment ([CHR 0x22] @ c @ [CHR 0x22] @ ''=$'' @ toString_nat n @ r)
           = Some ((c, n), r)"
proof -
  have "read_param (''$'' @ toString_nat n @ r) = Some (n, r)"
    using assms(2) by (rule read_param_toString)
  then have p: "read_param (CHR ''$'' # toString_nat n @ r) = Some (n, r)" by simp
  have q: "read_quoted (c @ CHR 0x22 # CHR ''='' # CHR ''$'' # toString_nat n @ r)
             = Some (c, CHR ''='' # CHR ''$'' # toString_nat n @ r)"
    using assms(1) by (rule read_quoted_closed)
  show ?thesis
    unfolding read_assignment_def
    by (simp add: strip_prefix_def q p del: read_param.simps)
qed

lemma read_assignments_text:
  assumes "ks \<noteq> []" and "\<forall>k \<in> set ks. CHR 0x22 \<notin> set (f k)" and "length ks \<le> fuel"
    and "takeWhile is_digit r = []" and "strip_prefix '', '' r = None"
  shows "read_assignments fuel
           (join '', '' (map_idx (\<lambda>k i. [CHR 0x22] @ f k @ [CHR 0x22] @ ''=$'' @ toString_nat (i + 1))
                          idx ks) @ r)
         = Some (map_idx (\<lambda>k i. (f k, i + 1)) idx ks, r)"
  using assms
proof (induction ks arbitrary: idx fuel)
  case Nil
  then show ?case by simp
next
  case (Cons k ks)
  from Cons.prems(3) obtain fuel' where fuel: "fuel = Suc fuel'" and le: "length ks \<le> fuel'"
    by (cases fuel) auto
  from Cons.prems(2) have qk: "CHR 0x22 \<notin> set (f k)" by simp
  show ?case
  proof (cases ks)
    case Nil
    have "read_assignment ([CHR 0x22] @ f k @ [CHR 0x22] @ ''=$'' @ toString_nat (idx + 1) @ r)
            = Some ((f k, idx + 1), r)"
      using qk Cons.prems(4) by (rule read_assignment_text)
    with Nil fuel Cons.prems(5) show ?thesis by simp
  next
    case (Cons k' ks')
    let ?rest = "join '', '' (map_idx (\<lambda>k i. [CHR 0x22] @ f k @ [CHR 0x22] @ ''=$'' @ toString_nat (i + 1))
                          (idx + 1) ks) @ r"
    have t: "takeWhile is_digit ('', '' @ ?rest) = []"
      by (simp add: is_digit_def)
    have a: "read_assignment ([CHR 0x22] @ f k @ [CHR 0x22] @ ''=$'' @ toString_nat (idx + 1)
                 @ '', '' @ ?rest) = Some ((f k, idx + 1), '', '' @ ?rest)"
      using qk t by (rule read_assignment_text)
    have s: "strip_prefix '', '' ('', '' @ ?rest) = Some ?rest"
      by (rule strip_prefix_append)
    have ih: "read_assignments fuel' ?rest = Some (map_idx (\<lambda>k i. (f k, i + 1)) (idx + 1) ks, r)"
      using Cons.IH [of fuel' "idx + 1"] Cons Cons.prems le by simp
    from a s ih fuel Cons show ?thesis by simp
  qed
qed

subsection \<open>The UPDATE statements\<close>

lemmas sql_texts =
  Company_create_duplicateCheck_sql_def Company_create_sql_def Company_findAll_select_def
  Company_get_sql_def Company_update_set_def Company_update_where_def
  Company_update_returning_def Company_remove_sql_def Job_create_sql_def
  Job_findAll_select_def Job_get_sql_def Job_get_company_sql_def Job_update_set_def
  Job_update_where_def Job_update_returning_def Job_remove_sql_def

lemma length_join_ge:
  "\<forall>x \<in> set xs. x \<noteq> [] \<Longrightarrow> length xs \<le> length (join sep xs)"
proof (induction sep xs rule: join.induct)
  case (1 sep)
  then show ?case by simp
next
  case (2 sep x)
  then show ?case by (cases x) simp_all
next
  case (3 sep x y ys)
  then have "length (y # ys) \<le> length (join sep (y # ys))" by simp
  moreover from 3 have "1 \<le> length x" by (cases x) simp_all
  ultimately show ?case by simp
qed

lemma length_cols_le_join: "length keys \<le> length (join '', '' (cols keys T))"
proof -
  have "\<forall>x \<in> set (cols keys T). x \<noteq> []"
    by (auto simp: cols_def in_set_conv_nth length_map_idx nth_map_idx)
  from length_join_ge [OF this, of "'', ''"] show ?thesis
    by (simp add: length_cols)
qed

lemma fst_map_idx_pair: "map fst (map_idx (\<lambda>k i. (f k, g i)) idx ks) = map f ks"
  by (induction ks arbitrary: idx) simp_all

lemma snd_map_idx_bounds:
  "(c, n) \<in> set (map_idx (\<lambda>k i. (f k, i + 1)) idx ks) \<Longrightarrow> idx + 1 \<le> n \<and> n \<le> idx + length ks"
proof (induction ks arbitrary: idx)
  case Nil
  then show ?case by simp
next
  case (Cons k ks)
  from Cons.prems have "(c, n) = (f k, idx + 1) \<or> (c, n) \<in> set (map_idx (\<lambda>k i. (f k, i + 1)) (idx + 1) ks)"
    by simp
  then show ?case
  proof
    assume "(c, n) = (f k, idx + 1)"
    then show ?thesis by simp
  next
    assume "(c, n) \<in> set (map_idx (\<lambda>k i. (f k, i + 1)) (idx + 1) ks)"
    from Cons.IH [OF this] show ?thesis by simp
  qed
qed

text \<open>The SET clause of the builder is read back as its assignments.\<close>

lemma read_update_text:
  assumes "keys \<noteq> []" and "\<forall>k \<in> set keys. CHR 0x22 \<notin> set (js_or (T k) k)"
    and "hd upd_where = CHR '' ''" and "upd_where \<noteq> []"
    and "takeWhile is_digit upd_returning = []"
  shows "read_update upd_set upd_where upd_returning
           (upd_set @ join '', '' (cols keys T) @ upd_where @ ''$'' @ toString_nat n @ upd_returning)
         = Some (map_idx (\<lambda>k i. (js_or (T k) k, i + 1)) 0 keys, n)"
proof -
  let ?r = "upd_where @ ''$'' @ toString_nat n @ upd_returning"
  let ?s1 = "join '', '' (cols keys T) @ ?r"
  have sp: "strip_prefix '', '' ?r = None"
    using assms(3,4) by (cases upd_where) (auto simp: strip_prefix_def)
  have tw: "takeWhile is_digit ?r = []"
    using assms(3,4) by (cases upd_where) (auto simp: is_digit_def)
  have fuel: "length keys \<le> length ?s1"
    using length_cols_le_join [of keys T] by simp
  have "read_assignments (length ?s1)
          (join '', '' (map_idx (\<lambda>k i. [CHR 0x22] @ js_or (T k) k @ [CHR 0x22] @ ''=$'' @ toString_nat (i + 1))
                          0 keys) @ ?r)
        = Some (map_idx (\<lambda>k i. (js_or (T k) k, i + 1)) 0 keys, ?r)"
    using assms(1,2) fuel tw sp by (rule read_assignments_text)
  then have ra: "read_assignments (length ?s1) ?s1
        = Some (map_idx (\<lambda>k i. (js_or (T k) k, i + 1)) 0 keys, ?r)"
    by (simp add: cols_def)
  have rp: "read_param (''$'' @ toString_nat n @ upd_returning) = Some (n, upd_returning)"
    using assms(5) by (rule read_param_toString)
  have s1: "strip_prefix upd_set (upd_set @ ?s1) = Some ?s1"
    by (rule strip_prefix_append)
  have s3: "strip_prefix upd_where ?r = Some (''$'' @ toString_nat n @ upd_returning)"
    by (rule strip_prefix_append)
  show ?thesis
    unfolding read_update_def
    using s1 ra s3 rp by (simp del: read_param.simps)
qed

lemma read_sql_Company_update:
  assumes "keys \<noteq> []" and "\<forall>k \<in> set keys. CHR 0x22 \<notin> set (js_or (T k) k)"
  shows "read_sql (Company_update_set @ join '', '' (cols keys T) @ Company_update_where
                     @ ''$'' @ toString_nat n @ Company_update_returning)
         = Some (Update Companies (map_idx (\<lambda>k i. (js_or (T k) k, i + 1)) 0 keys)
                   (Cond ''handle'' Eq (Param n)) company_output)"
proof -
  let ?text = "Company_update_set @ join '', '' (cols keys T) @ Company_update_where
                 @ ''$'' @ toString_nat n @ Company_update_returning"
  have fixed: "map_of fixed_statements ?text = None"
    by (simp add: fixed_statements_def sql_texts)
  have c: "strip_prefix Company_findAll_select ?text = None"
    by (simp add: strip_prefix_def sql_texts)
  have j: "strip_prefix Job_findAll_select ?text = None"
    by (simp add: strip_prefix_def sql_texts)
  have u: "read_update Company_update_set Company_update_where Company_update_returning ?text
             = Some (map_idx (\<lambda>k i. (js_or (T k) k, i + 1)) 0 keys, n)"
    using assms
    by (rule read_update_text) (simp_all add: sql_texts is_digit_def strip_prefix_def)
  show ?thesis
    unfolding read_sql_def using fixed c j u by simp
qed

lemma read_sql_Job_update:
  assumes "keys \<noteq> []" and "\<forall>k \<in> set keys. CHR 0x22 \<notin> set (js_or (T k) k)"
  shows "read_sql (Job_update_set @ join '', '' (cols keys T) @ Job_update_where
                     @ ''$'' @ toString_nat n @ Job_update_returning)
         = Some (Update Jobs (map_idx (\<lambda>k i. (js_or (T k) k, i + 1)) 0 keys)
                   (Cond ''id'' Eq (Param n)) job_output)"
proof -
  let ?text = "Job_update_set @ join '', '' (cols keys T) @ Job_update_where
                 @ ''$'' @ toString_nat n @ Job_update_returning"
  have fixed: "map_of fixed_statements ?text = None"
    by (simp add: fixed_statements_def sql_texts)
  have c: "strip_prefix Company_findAll_select ?text = None"
    by (simp add: strip_prefix_def sql_texts)
  have j: "strip_prefix Job_findAll_select ?text = None"
    by (simp add: strip_prefix_def sql_texts)
  have cu: "read_update Company_update_set Company_update_where Company_update_returning ?text
             = None"
    by (simp add: read_update_def strip_prefix_def sql_texts)
  have u: "read_update Job_update_set Job_update_where Job_update_returning ?text
             = Some (map_idx (\<lambda>k i. (js_or (T k) k, i + 1)) 0 keys, n)"
    using assms
    by (rule read_update_text) (simp_all add: sql_texts is_digit_def strip_prefix_def)
  show ?thesis
    unfolding read_sql_def using fixed c j cu u by simp
qed

section \<open>What the store answers\<close>

text \<open>The fixed statements, read.\<close>

lemma read_Company_get:
  "read_sql Company_get_sql
     = Some (Select (From Companies) company_output [Cond ''handle'' Eq (Param 1)] None)"
  by (simp add: read_sql_def fixed_statements_def sql_texts)

lemma read_Company_duplicateCheck:
  "read_sql Company_create_duplicateCheck_sql
     = Some (Select (From Companies) [(''handle'', ''handle'')] [Cond ''handle'' Eq (Param 1)] None)"
  by (simp add: read_sql_def fixed_statements_def sql_texts)

lemma read_Company_remove:
  "read_sql Company_remove_sql
     = Some (Delete Companies (Cond ''handle'' Eq (Param 1)) [(''handle'', ''handle'')])"
  by (simp add: read_sql_def fixed_statements_def sql_texts)

lemma read_Job_get:
  "read_sql Job_get_sql = Some (Select (From Jobs) job_output [Cond ''id'' Eq (Param 1)] None)"
  by (simp add: read_sql_def fixed_statements_def sql_texts)

lemma read_Job_remove:
  "read_sql Job_remove_sql = Some (Delete Jobs (Cond ''id'' Eq (Param 1)) [(''id'', ''id'')])"
  by (simp add: read_sql_def fixed_statements_def sql_texts)

text \<open>\<^verbatim>\<open>db.query\<close> throws nothing but \<open>StorageError\<close>.\<close>

lemma db_query_error:
  "fst (db_query schema db text params) = Inl e \<Longrightarrow> e = StorageError"
  by (auto simp: db_query_def split: option.splits)

text \<open>A key that identifies no record: the key condition selects no row.\<close>

lemma key_column_types:
  "column_type ''handle'' = TText" "column_type ''id'' = TInteger"
  by (simp_all add: column_type_def)

lemma no_company_rows:
  "\<not> has_company db h \<Longrightarrow>
   filter (\<lambda>r. holds (ps @ [SqlText h]) r (Cond ''handle'' Eq (Param (Suc (length ps)))))
     (companies db) = []"
  by (auto simp: has_company_def list_ex_iff filter_empty_conv nth_append)

lemma no_job_rows:
  "\<not> has_job db k \<Longrightarrow>
   filter (\<lambda>r. holds (ps @ [SqlInt k]) r (Cond ''id'' Eq (Param (Suc (length ps)))))
     (jobs db) = []"
  by (auto simp: has_job_def list_ex_iff filter_empty_conv nth_append)

lemma Company_get_missing:
  assumes "\<not> has_company db h"
  shows "Company_get schema db h
    = (Inl (NotFoundError (''No company: '' @ h)),
       db\<lparr>issued := issued db @ [(Company_get_sql, [SqlText h])]\<rparr>)"
  using no_company_rows [OF assms, of "[]"]
  by (simp add: Company_get_def db_query_def read_Company_get output_ok_def company_output_def
        first_row_def key_column_types)

lemma Company_remove_missing:
  assumes "\<not> has_company db h"
  shows "Company_remove schema db h
    = (Inl (NotFoundError (''No company: '' @ h)),
       db\<lparr>issued := issued db @ [(Company_remove_sql, [SqlText h])]\<rparr>)"
  using no_company_rows [OF assms, of "[]"]
  by (simp add: Company_remove_def db_query_def read_Company_remove output_ok_def first_row_def
        key_column_types)

lemma Job_get_missing:
  assumes "\<not> has_job db k" and "fits TInteger (SqlInt k)"
  shows "Job_get schema db k
    = (Inl (NotFoundError (''No job: '' @ toString_int k)),
       db\<lparr>issued := issued db @ [(Job_get_sql, [SqlInt k])]\<rparr>)"
  using no_job_rows [OF assms(1), of "[]"] assms(2)
  by (simp add: Job_get_def db_query_def read_Job_get output_ok_def job_output_def first_row_def
        key_column_types)

lemma Job_remove_missing:
  assumes "\<not> has_job db k" and "fits TInteger (SqlInt k)"
  shows "Job_remove schema db k
    = (Inl (NotFoundError (''No job: '' @ toString_int k)),
       db\<lparr>issued := issued db @ [(Job_remove_sql, [SqlInt k])]\<rparr>)"
  using no_job_rows [OF assms(1), of "[]"] assms(2)
  by (simp add: Job_remove_def db_query_def read_Job_remove output_ok_def first_row_def
        key_column_types)

text \<open>
  \<open>update\<close> on a key that identifies no record, with fields that are columns and values
  that fit them.
\<close>

lemma column_unquoted: "c \<in> set (columns t) \<Longrightarrow> CHR 0x22 \<notin> set c"
  by (cases t) auto

lemma sets_ok:
  assumes "list_all (\<lambda>(key, v). f key \<in> set cs \<and> fits (column_type (f key)) v) F"
  shows "list_all (\<lambda>(c, i). c \<in> set cs \<and> 1 \<le> i \<and> i \<le> length (map snd F @ [x])
                      \<and> fits (column_type c) ((map snd F @ [x]) ! (i - 1)))
           (map_idx (\<lambda>key i. (f key, i + 1)) 0 (map fst F))"
proof -
  have "c \<in> set cs \<and> 1 \<le> i \<and> i \<le> length (map snd F @ [x])
          \<and> fits (column_type c) ((map snd F @ [x]) ! (i - 1))"
    if "(c, i) \<in> set (map_idx (\<lambda>key i. (f key, i + 1)) 0 (map fst F))" for c i
  proof -
    from that obtain j where j: "j < length F"
      and e: "map_idx (\<lambda>key i. (f key, i + 1)) 0 (map fst F) ! j = (c, i)"
      by (auto simp: in_set_conv_nth length_map_idx)
    from j e have c: "c = f (fst (F ! j))" and i: "i = j + 1"
      by (simp_all add: nth_map_idx)
    from j have "F ! j \<in> set F" by simp
    with assms have "f (fst (F ! j)) \<in> set cs \<and> fits (column_type (f (fst (F ! j)))) (snd (F ! j))"
      by (auto simp: list_all_iff case_prod_beta)
    with c i j show ?thesis
      by (simp add: nth_append)
  qed
  then show ?thesis by (auto simp: list_all_iff)
qed

lemma Company_update_missing:
  assumes "\<not> has_company db h" and "F \<noteq> []"
    and "distinct (map (\<lambda>key. js_or (Company_update_jsToSql key) key) (map fst F))"
    and "list_all (\<lambda>(key, v). js_or (Company_update_jsToSql key) key \<in> set (columns Companies)
                      \<and> fits (column_type (js_or (Company_update_jsToSql key) key)) v) F"
  shows "fst (Company_update schema db h F) = Inl (NotFoundError (''No company: '' @ h))"
proof -
  let ?T = "Company_update_jsToSql"
  let ?keys = "map fst F"
  let ?sets = "map_idx (\<lambda>k i. (js_or (?T k) k, i + 1)) 0 ?keys"
  let ?sql = "Company_update_set @ join '', '' (cols ?keys ?T) @ Company_update_where
                 @ ''$'' @ toString_nat (length F + 1) @ Company_update_returning"
  let ?params = "map snd F @ [SqlText h]"
  from assms(2) have ne: "?keys \<noteq> []" by simp
  from assms(4) have "\<forall>k \<in> set ?keys. js_or (?T k) k \<in> set (columns Companies)"
    by (auto simp: list_all_iff)
  then have unq: "\<forall>k \<in> set ?keys. CHR 0x22 \<notin> set (js_or (?T k) k)"
    using column_unquoted [of _ Companies] by blast
  have rd: "read_sql ?sql
      = Some (Update Companies ?sets (Cond ''handle'' Eq (Param (length F + 1))) company_output)"
    using ne unq by (rule read_sql_Company_update)
  have ok: "list_all (\<lambda>(c, i). c \<in> set (columns Companies) \<and> 1 \<le> i \<and> i \<le> length ?params
                         \<and> fits (column_type c) (?params ! (i - 1))) ?sets"
    using assms(4) by (rule sets_ok)
  have ds: "distinct (map fst ?sets)"
    using assms(3) by (simp only: fst_map_idx_pair)
  have hit: "filter (\<lambda>r. holds ?params r (Cond ''handle'' Eq (Param (Suc (length (map snd F))))))
               (companies db) = []"
    using assms(1) by (rule no_company_rows)
  have run: "run schema db
               (Update Companies ?sets (Cond ''handle'' Eq (Param (length F + 1))) company_output)
               ?params
             = Some ([], db)"
    using ok ds hit by (simp add: output_ok_def company_output_def key_column_types)
  have "db_query schema db ?sql ?params = (Inr [], db\<lparr>issued := issued db @ [(?sql, ?params)]\<rparr>)"
    by (simp only: db_query_def rd run option.case prod.case)
  with assms(2) show ?thesis
    by (simp add: Company_update_def sqlForPartialUpdate_def first_row_def)
qed

lemma Job_update_missing:
  assumes "\<not> has_job db k" and "fits TInteger (SqlInt k)" and "F \<noteq> []"
    and "distinct (map (\<lambda>key. js_or (Job_update_jsToSql key) key) (map fst F))"
    and "list_all (\<lambda>(key, v). js_or (Job_update_jsToSql key) key \<in> set (columns Jobs)
                      \<and> fits (column_type (js_or (Job_update_jsToSql key) key)) v) F"
  shows "fst (Job_update schema db k F) = Inl (NotFoundError (''No job: '' @ toString_int k))"
proof -
  let ?T = "Job_update_jsToSql"
  let ?keys = "map fst F"
  let ?sets = "map_idx (\<lambda>k i. (js_or (?T k) k, i + 1)) 0 ?keys"
  let ?sql = "Job_update_set @ join '', '' (cols ?keys ?T) @ Job_update_where
                 @ ''$'' @ toString_nat (length F + 1) @ Job_update_returning"
  let ?params = "map snd F @ [SqlInt k]"
  from assms(3) have ne: "?keys \<noteq> []" by simp
  from assms(5) have "\<forall>k \<in> set ?keys. js_or (?T k) k \<in> set (columns Jobs)"
    by (auto simp: list_all_iff)
  then have unq: "\<forall>k \<in> set ?keys. CHR 0x22 \<notin> set (js_or (?T k) k)"
    using column_unquoted [of _ Jobs] by blast
  have rd: "read_sql ?sql
      = Some (Update Jobs ?sets (Cond ''id'' Eq (Param (length F + 1))) job_output)"
    using ne unq by (rule read_sql_Job_update)
  have ok: "list_all (\<lambda>(c, i). c \<in> set (columns Jobs) \<and> 1 \<le> i \<and> i \<le> length ?params
                         \<and> fits (column_type c) (?params ! (i - 1))) ?sets"
    using assms(5) by (rule sets_ok)
  have ds: "distinct (map fst ?sets)"
    using assms(4) by (simp only: fst_map_idx_pair)
  have hit: "filter (\<lambda>r. holds ?params r (Cond ''id'' Eq (Param (Suc (length (map snd F))))))
               (jobs db) = []"
    using assms(1) by (rule no_job_rows)
  have key: "comparable (column_type ''id'') (?params ! length F)"
    using assms(2) by (simp add: key_column_types nth_append)
  have run: "run schema db (Update Jobs ?sets (Cond ''id'' Eq (Param (length F + 1))) job_output)
               ?params
             = Some ([], db)"
    using ok ds hit key by (simp add: output_ok_def job_output_def)
  have "db_query schema db ?sql ?params = (Inr [], db\<lparr>issued := issued db @ [(?sql, ?params)]\<rparr>)"
    by (simp only: db_query_def rd run option.case prod.case)
  with assms(3) show ?thesis
    by (simp add: Job_update_def sqlForPartialUpdate_def first_row_def)
qed

text \<open>\<open>create\<close> on a handle that is taken.\<close>

lemma Company_create_duplicate:
  assumes "has_company db h"
  shows "Company_create schema db h n d e l
     = (Inl (BadRequestError (''Duplicate company: '' @ h)),
        db\<lparr>issued := issued db @ [(Company_create_duplicateCheck_sql, [SqlText h])]\<rparr>)"
proof -
  from assms obtain r where "r \<in> set (companies db)" and "col_val r ''handle'' = SqlText h"
    by (auto simp: has_company_def list_ex_iff)
  then have "filter (\<lambda>r. holds [SqlText h] r (Cond ''handle'' Eq (Param 1))) (companies db) \<noteq> []"
    by (auto simp: filter_empty_conv intro!: bexI [of _ r])
  then obtain x xs where
    "filter (\<lambda>r. holds [SqlText h] r (Cond ''handle'' Eq (Param 1))) (companies db) = x # xs"
    by (cases "filter (\<lambda>r. holds [SqlText h] r (Cond ''handle'' Eq (Param 1))) (companies db)") auto
  then have "db_query schema db Company_create_duplicateCheck_sql [SqlText h]
      = (Inr (map (project [(''handle'', ''handle'')]) (x # xs)),
         db\<lparr>issued := issued db @ [(Company_create_duplicateCheck_sql, [SqlText h])]\<rparr>)"
    by (simp add: db_query_def read_Company_duplicateCheck output_ok_def key_column_types)
  then show ?thesis
    by (simp add: Company_create_def first_row_def)
qed

text \<open>\<open>update\<close> throws \<open>BadRequestError\<close> on the empty field map only.\<close>

lemma db_query_result:
  "(\<exists>db'. db_query schema db text params = (Inl StorageError, db'))
   \<or> (\<exists>rows db'. db_query schema db text params = (Inr rows, db'))"
  by (simp add: db_query_def split: option.splits)

lemma db_query_cases:
  obtains db' where "db_query schema db text params = (Inl StorageError, db')"
  | rows db' where "db_query schema db text params = (Inr rows, db')"
  using db_query_result [of schema db "text" params] by blast

lemma update_never_validation:
  assumes "F \<noteq> []"
  shows "fst (Company_update schema db h F) \<noteq> Inl (BadRequestError m)
       \<and> fst (Job_update schema db k F) \<noteq> Inl (BadRequestError m)"
proof
  let ?u = "\<lparr>setCols = join '', '' (cols (map fst F) Company_update_jsToSql), values = map snd F\<rparr>"
  let ?sql = "Company_update_set @ setCols ?u @ Company_update_where
                @ ''$'' @ toString_nat (length (values ?u) + 1) @ Company_update_returning"
  from assms have b: "sqlForPartialUpdate F Company_update_jsToSql = Inr ?u"
    by (simp add: sqlForPartialUpdate_def)
  show "fst (Company_update schema db h F) \<noteq> Inl (BadRequestError m)"
  proof (cases rule: db_query_cases [of schema db ?sql "values ?u @ [SqlText h]"])
    case (1 db')
    with b show ?thesis by (simp add: Company_update_def)
  next
    case (2 rows db')
    with b show ?thesis by (simp add: Company_update_def split: option.splits)
  qed
next
  let ?u = "\<lparr>setCols = join '', '' (cols (map fst F) Job_update_jsToSql), values = map snd F\<rparr>"
  let ?sql = "Job_update_set @ setCols ?u @ Job_update_where
                @ ''$'' @ toString_nat (length (values ?u) + 1) @ Job_update_returning"
  from assms have b: "sqlForPartialUpdate F Job_update_jsToSql = Inr ?u"
    by (simp add: sqlForPartialUpdate_def)
  show "fst (Job_update schema db k F) \<noteq> Inl (BadRequestError m)"
  proof (cases rule: db_query_cases [of schema db ?sql "values ?u @ [SqlInt k]"])
    case (1 db')
    with b show ?thesis by (simp add: Job_update_def)
  next
    case (2 rows db')
    with b show ?thesis by (simp add: Job_update_def split: option.splits)
  qed
qed

text \<open>The query of findAll in terms of which filters are truthy.\<close>

lemma Company_findAll_query_form:
  assumes "\<not> js_gt a b"
  shows "Company_findAll_query \<lparr>name = n, minEmployees = a, maxEmployees = b\<rparr>
    = Inr (Company_findAll_select
             @ (if truthy_string n \<or> truthy_number a \<or> truthy_number b
                then '' WHERE '' @ join '' AND ''
                      ((if truthy_string n then [''name ILIKE $1''] else [])
                       @ (if truthy_number a
                          then [''num_employees >= $'' @ (if truthy_string n then ''2'' else ''1'')]
                          else [])
                       @ (if truthy_number b
                          then [''num_employees <= $''
                                 @ (if truthy_string n \<and> truthy_number a then ''3''
                                    else if truthy_string n \<or> truthy_number a then ''2'' else ''1'')]
                          else []))
                else [])
             @ '' ORDER BY name'',
           (if truthy_string n then [SqlText (''%'' @ the n @ ''%'')] else [])
             @ (if truthy_number a then [SqlInt (the a)] else [])
             @ (if truthy_number b then [SqlInt (the b)] else []))"
  using assms
  by (cases n; cases a; cases b)
     (simp_all add: Company_findAll_query_def truthy_string_def truthy_number_def
        toString_nat.simps digit_char_def)

lemma Job_findAll_query_form:
  "Job_findAll_query \<lparr>minSalary = a, hasEquity = e, title = t\<rparr>
    = (Job_findAll_select
             @ (if truthy_string t \<or> truthy_number a \<or> truthy_bool e
                then '' WHERE '' @ join '' AND ''
                      ((if truthy_string t then [''title ILIKE $1''] else [])
                       @ (if truthy_number a
                          then [''salary >= $'' @ (if truthy_string t then ''2'' else ''1'')]
                          else [])
                       @ (if truthy_bool e then [''equity > 0''] else []))
                else [])
             @ '' ORDER BY title'',
           (if truthy_string t then [SqlText (''%'' @ the t @ ''%'')] else [])
             @ (if truthy_number a then [SqlInt (the a)] else []))"
  by (cases t; cases a; cases e)
     (simp_all add: Job_findAll_query_def truthy_string_def truthy_number_def truthy_bool_def
        toString_nat.simps digit_char_def)

text \<open>Every call of \<^verbatim>\<open>db.query\<close> is recorded, whatever it returns.\<close>

lemma issued_db_query:
  "issued (snd (db_query schema db sql params)) = issued db @ [(sql, params)]"
  by (simp add: db_query_def split: option.splits)

text \<open>Whatever the store, a company returned by \<open>Company.get\<close> has these five fields.\<close>

lemma Company_get_fields:
  assumes "Company_get schema db h = (Inr found, db')"
  shows "map fst found = [''handle'', ''name'', ''description'', ''numEmployees'', ''logoUrl'']"
proof -
  obtain res db1 where q: "db_query schema db Company_get_sql [SqlText h] = (res, db1)"
    by (cases "db_query schema db Company_get_sql [SqlText h]")
  with assms obtain rows where r: "res = Inr rows" and f: "first_row rows = Some found"
    by (cases res) (auto simp: Company_get_def split: option.splits)
  from q r have "\<exists>rs. rows = map (project company_output) rs"
    by (auto simp: db_query_def read_Company_get split: if_splits)
  with f obtain x where "found = project company_output x"
    by (auto simp: first_row_def split: list.splits)
  then show ?thesis
    by (simp add: project_def company_output_def)
qed

section \<open>The repositories: claims\<close>

text \<open>
  C2. The claim: for an existing handle \<open>h\<close>, \<open>Company.get(h)\<close> returns the company with
  its jobs under \<open>jobs\<close>, as the comment of the function says. The code issues the one
  SELECT on \<open>companies\<close> and returns its row: on the store of the route tests, where
  company \<open>c1\<close> has three jobs, the result has the five company fields and no \<open>jobs\<close>,
  and no statement reads the table of jobs.
\<close>

theorem Company_get_returns_no_jobs:
  "has_company test_store ''c1''
   \<and> Company_get spec_schema test_store ''c1''
       = (Inr [(''handle'', SqlText ''c1''), (''name'', SqlText ''C1''),
               (''description'', SqlText ''Desc1''), (''numEmployees'', SqlInt 1),
               (''logoUrl'', SqlText ''http://c1.img'')],
          test_store\<lparr>issued := [(Company_get_sql, [SqlText ''c1''])]\<rparr>)"
  by code_simp

text \<open>
  C3. An empty field map is rejected at every level: the builder fails with
  \<open>BadRequestError\<close> for every translation table, and so does \<open>update\<close> of either
  repository for every key, with the store as it was (no statement is issued).
\<close>

theorem empty_update_rejected:
  "sqlForPartialUpdate [] T = Inl (BadRequestError ''No data'')
   \<and> Company_update schema db h [] = (Inl (BadRequestError ''No data''), db)
   \<and> Job_update schema db k [] = (Inl (BadRequestError ''No data''), db)"
  by (simp add: sqlForPartialUpdate_def Company_update_def Job_update_def)

theorem empty_update_rejected_witness:
  "sqlForPartialUpdate ([] :: (string \<times> sqlval) list) [''numEmployees'' \<mapsto> ''num_employees'']
     = Inl (BadRequestError ''No data'')
   \<and> Company_update spec_schema test_store ''c1'' [] = (Inl (BadRequestError ''No data''), test_store)
   \<and> Job_update spec_schema test_store 1 [] = (Inl (BadRequestError ''No data''), test_store)"
  using empty_update_rejected
          [of "[''numEmployees'' \<mapsto> ''num_employees'']" spec_schema test_store "''c1''" 1]
  by simp

text \<open>
  C5. When both bounds are given and \<open>minEmployees\<close> is greater than \<open>maxEmployees\<close>,
  \<open>Company.findAll\<close> fails with \<open>BadRequestError\<close>, whatever the name filter, and the
  store is as it was: no statement has been issued.
\<close>

theorem Company_findAll_range_rejected:
  assumes "b < a"
  shows "Company_findAll schema db \<lparr>name = n, minEmployees = Some a, maxEmployees = Some b\<rparr>
           = (Inl (BadRequestError ''minEmployees cannot be greater than maxEmployees''), db)"
  using assms by (simp add: Company_findAll_def Company_findAll_query_def js_gt_def)

theorem Company_findAll_range_rejected_witness:
  "(1::int) < 2
   \<and> Company_findAll spec_schema test_store
         \<lparr>name = None, minEmployees = Some 2, maxEmployees = Some 1\<rparr>
       = (Inl (BadRequestError ''minEmployees cannot be greater than maxEmployees''), test_store)"
  using Company_findAll_range_rejected [of 1 2 spec_schema test_store None]
  by simp

text \<open>
  C6. The claim: \<open>Company.findAll\<close> returns exactly the companies that satisfy every
  supplied filter, also for a supplied 0. The code tests each filter for truthiness, so a
  supplied \<open>maxEmployees\<close> of 0 adds no condition: on the store of the route tests no
  company has at most 0 employees, and \<open>findAll({maxEmployees: 0})\<close> returns both
  companies.
\<close>

theorem Company_findAll_ignores_zero_maxEmployees:
  "filter (\<lambda>r. sql_cmp Le (col_val r ''num_employees'') (SqlInt 0)) (companies test_store) = []
   \<and> fst (Company_findAll spec_schema test_store
             \<lparr>name = None, minEmployees = None, maxEmployees = Some 0\<rparr>)
       = Inr [[(''handle'', SqlText ''c1''), (''name'', SqlText ''C1''),
               (''description'', SqlText ''Desc1''), (''numEmployees'', SqlInt 1),
               (''logoUrl'', SqlText ''http://c1.img'')],
              [(''handle'', SqlText ''c2''), (''name'', SqlText ''C2''),
               (''description'', SqlText ''Desc2''), (''numEmployees'', SqlInt 2),
               (''logoUrl'', SqlText ''http://c2.img'')]]"
  by code_simp

text \<open>
  C7. The claim: \<open>update\<close> with a field map that contains the key field
  (\<open>handle\<close> for a company, \<open>companyHandle\<close> for a job) fails with
  \<open>BadRequestError\<close>. Neither \<open>update\<close> looks at the names of the fields. On the store
  of the route tests \<open>Company.update("c2", {handle: "c9"})\<close> succeeds and the company is
  now \<open>c9\<close>; \<open>Job.update(1, {companyHandle: "c2"})\<close> fails, but in the store, which
  has no column of that name.
\<close>

theorem Company_update_rekeys:
  "fst (Company_update spec_schema test_store ''c2'' [(''handle'', SqlText ''c9'')])
     = Inr [(''handle'', SqlText ''c9''), (''name'', SqlText ''C2''),
            (''description'', SqlText ''Desc2''), (''numEmployees'', SqlInt 2),
            (''logoUrl'', SqlText ''http://c2.img'')]
   \<and> map (\<lambda>r. col_val r ''handle'')
         (companies (snd (Company_update spec_schema test_store ''c2''
                            [(''handle'', SqlText ''c9'')])))
       = [SqlText ''c1'', SqlText ''c9'']
   \<and> fst (Job_update spec_schema test_store 1 [(''companyHandle'', SqlText ''c2'')])
       = Inl StorageError"
  by code_simp

text \<open>
  C7, amended. For every non-empty field map, with or without a key field, neither
  \<open>update\<close> fails with \<open>BadRequestError\<close>: the builder's fragments, a key field's among
  them, go into one UPDATE statement, which is issued with the values and the key.
\<close>

theorem update_checks_no_field_name:
  assumes "F \<noteq> []"
  shows "fst (Company_update schema db h F) \<noteq> Inl (BadRequestError m)
       \<and> fst (Job_update schema db k F) \<noteq> Inl (BadRequestError m)
       \<and> issued (snd (Company_update schema db h F))
           = issued db @
             [(Company_update_set @ join '', '' (cols (map fst F) Company_update_jsToSql)
                 @ Company_update_where @ ''$'' @ toString_nat (length F + 1)
                 @ Company_update_returning,
               map snd F @ [SqlText h])]
       \<and> issued (snd (Job_update schema db k F))
           = issued db @
             [(Job_update_set @ join '', '' (cols (map fst F) Job_update_jsToSql)
                 @ Job_update_where @ ''$'' @ toString_nat (length F + 1) @ Job_update_returning,
               map snd F @ [SqlInt k])]"
proof -
  let ?csql = "Company_update_set @ join '', '' (cols (map fst F) Company_update_jsToSql)
                 @ Company_update_where @ ''$'' @ toString_nat (length F + 1)
                 @ Company_update_returning"
  let ?jsql = "Job_update_set @ join '', '' (cols (map fst F) Job_update_jsToSql)
                 @ Job_update_where @ ''$'' @ toString_nat (length F + 1) @ Job_update_returning"
  have c: "issued (snd (Company_update schema db h F))
             = issued db @ [(?csql, map snd F @ [SqlText h])]"
  proof -
    obtain res db1 where q: "db_query schema db ?csql (map snd F @ [SqlText h]) = (res, db1)"
      by (cases "db_query schema db ?csql (map snd F @ [SqlText h])")
    with assms have "snd (Company_update schema db h F) = db1"
      by (cases res) (simp_all add: Company_update_def sqlForPartialUpdate_def split: option.splits)
    moreover from q issued_db_query [of schema db ?csql "map snd F @ [SqlText h]"]
    have "issued db1 = issued db @ [(?csql, map snd F @ [SqlText h])]" by simp
    ultimately show ?thesis by simp
  qed
  have j: "issued (snd (Job_update schema db k F)) = issued db @ [(?jsql, map snd F @ [SqlInt k])]"
  proof -
    obtain res db1 where q: "db_query schema db ?jsql (map snd F @ [SqlInt k]) = (res, db1)"
      by (cases "db_query schema db ?jsql (map snd F @ [SqlInt k])")
    with assms have "snd (Job_update schema db k F) = db1"
      by (cases res) (simp_all add: Job_update_def sqlForPartialUpdate_def split: option.splits)
    moreover from q issued_db_query [of schema db ?jsql "map snd F @ [SqlInt k]"]
    have "issued db1 = issued db @ [(?jsql, map snd F @ [SqlInt k])]" by simp
    ultimately show ?thesis by simp
  qed
  from update_never_validation [OF assms, of schema db h m k] c j show ?thesis by simp
qed

text \<open>
  At a field map with the key field of a job and with a name that every object inherits
  (\<^verbatim>\<open>{companyHandle: "c2", constructor: "x"}\<close>): the first fragment quotes the key, the
  second what the lookup in the object literal gives.
\<close>

theorem update_checks_no_field_name_witness:
  "[(''companyHandle'', SqlText ''c2''), (''constructor'', SqlText ''x'')] \<noteq> []
   \<and> fst (Company_update spec_schema test_store ''c1''
             [(''companyHandle'', SqlText ''c2''), (''constructor'', SqlText ''x'')])
       \<noteq> Inl (BadRequestError ''No data'')
   \<and> fst (Job_update spec_schema test_store 1
             [(''companyHandle'', SqlText ''c2''), (''constructor'', SqlText ''x'')])
       \<noteq> Inl (BadRequestError ''No data'')
   \<and> issued (snd (Job_update spec_schema test_store 1
                     [(''companyHandle'', SqlText ''c2''), (''constructor'', SqlText ''x'')]))
       = [(Job_update_set
             @ [CHR 0x22] @ ''companyHandle'' @ [CHR 0x22] @ ''=$1, ''
             @ [CHR 0x22] @ ''function Object() { [native code] }'' @ [CHR 0x22] @ ''=$2''
             @ Job_update_where @ ''$3'' @ Job_update_returning,
           [SqlText ''c2'', SqlText ''x'', SqlInt 1])]"
proof -
  have ne: "[(''companyHandle'', SqlText ''c2''), (''constructor'', SqlText ''x'')] \<noteq> []" by simp
  from update_checks_no_field_name [OF ne, of spec_schema test_store "''c1''" "''No data''" 1]
  show ?thesis
    by (simp add: test_store_def cols_def js_or_def Job_update_jsToSql_def object_literal_def
          Object_prototype_def toString_nat.simps digit_char_def)
qed

text \<open>
  C8. The claim: on a key that identifies no record, \<open>get\<close>, \<open>update\<close> with a non-empty
  field map and \<open>remove\<close> fail with \<open>NotFoundError\<close>. The functions pass the key and the
  values to the store as they are, and what the store refuses is thrown as the store's
  error. No job has the id 2147483648, which is no 32-bit integer: \<open>Job.get\<close>,
  \<open>Job.remove\<close> and \<open>Job.update\<close> fail on it in the store. No job has the id 0, and
  \<open>Job.update(0, {salary: 2147483648})\<close> fails in the store.
\<close>

theorem Job_key_out_of_range:
  "\<not> has_job test_store 2147483648
   \<and> fst (Job_get spec_schema test_store 2147483648) = Inl StorageError
   \<and> fst (Job_remove spec_schema test_store 2147483648) = Inl StorageError
   \<and> fst (Job_update spec_schema test_store 2147483648 [(''title'', SqlText ''New Job'')])
       = Inl StorageError
   \<and> \<not> has_job test_store 0
   \<and> fst (Job_update spec_schema test_store 0 [(''salary'', SqlInt 2147483648)])
       = Inl StorageError"
  by code_simp

text \<open>
  A field that is no column of the table (\<open>jobs\<close> has \<open>company_handle\<close>; the object literal
  of \<open>Job.update\<close> translates nothing): the store refuses the statement.
\<close>

lemma Job_update_no_such_column:
  "fst (Job_update spec_schema test_store 0 [(''companyHandle'', SqlText ''c2'')])
     = Inl StorageError"
  by code_simp

text \<open>
  The fields that the comments of the two \<open>update\<close> functions list
  (\<^verbatim>\<open>Data can include: ...\<close>) are translated to columns of the table, each to its own.
\<close>

lemma Company_update_fields:
  assumes "key \<in> {''name'', ''description'', ''numEmployees'', ''logoUrl''}"
  shows "js_or (Company_update_jsToSql key) key \<in> set (columns Companies)"
proof -
  from assms consider "key = ''name''" | "key = ''description''" | "key = ''numEmployees''"
    | "key = ''logoUrl''" by blast
  then show ?thesis
    by cases (simp_all add: js_or_def Company_update_jsToSql_def object_literal_def
                Object_prototype_def)
qed

lemma Company_update_fields_back:
  assumes "key \<in> {''name'', ''description'', ''numEmployees'', ''logoUrl''}"
  shows "(\<lambda>c. if c = ''num_employees'' then ''numEmployees''
              else if c = ''logo_url'' then ''logoUrl'' else c)
           (js_or (Company_update_jsToSql key) key) = key"
proof -
  from assms consider "key = ''name''" | "key = ''description''" | "key = ''numEmployees''"
    | "key = ''logoUrl''" by blast
  then show ?thesis
    by cases (simp_all add: js_or_def Company_update_jsToSql_def object_literal_def
                Object_prototype_def)
qed

lemma Company_update_fields_distinct:
  assumes "distinct keys"
    and "set keys \<subseteq> {''name'', ''description'', ''numEmployees'', ''logoUrl''}"
  shows "distinct (map (\<lambda>key. js_or (Company_update_jsToSql key) key) keys)"
proof -
  have "inj_on (\<lambda>key. js_or (Company_update_jsToSql key) key) (set keys)"
  proof (rule inj_on_inverseI)
    fix x
    assume "x \<in> set keys"
    with assms(2) have "x \<in> {''name'', ''description'', ''numEmployees'', ''logoUrl''}"
      by (rule subsetD)
    then show "(\<lambda>c. if c = ''num_employees'' then ''numEmployees''
              else if c = ''logo_url'' then ''logoUrl'' else c)
           (js_or (Company_update_jsToSql x) x) = x"
      by (rule Company_update_fields_back)
  qed
  with assms(1) show ?thesis by (simp only: distinct_map simp_thms)
qed

lemma Job_update_fields:
  assumes "key \<in> {''title'', ''salary'', ''equity''}"
  shows "js_or (Job_update_jsToSql key) key = key \<and> key \<in> set (columns Jobs)"
proof -
  from assms consider "key = ''title''" | "key = ''salary''" | "key = ''equity''" by blast
  then show ?thesis
    by cases (simp_all add: js_or_def Job_update_jsToSql_def object_literal_def
                Object_prototype_def)
qed

text \<open>
  C8, amended. Let the handle \<open>h\<close> and the id \<open>k\<close> identify no record and be values that the
  key columns take (a text without the character NUL, a 32-bit integer). Then \<open>get\<close> and
  \<open>remove\<close> of either repository fail with \<open>NotFoundError\<close>; and so does \<open>update\<close> with a
  non-empty field map of the fields that the function documents (for a company \<open>name\<close>,
  \<open>description\<close>, \<open>numEmployees\<close>, \<open>logoUrl\<close>; for a job \<open>title\<close>, \<open>salary\<close>,
  \<open>equity\<close>), each at most once, with values that fit the types of their columns.
\<close>

theorem missing_key_not_found:
  "(\<not> has_company db h \<and> fits TText (SqlText h) \<longrightarrow>
      fst (Company_get schema db h) = Inl (NotFoundError (''No company: '' @ h))
      \<and> fst (Company_remove schema db h) = Inl (NotFoundError (''No company: '' @ h))
      \<and> (F \<noteq> [] \<and> distinct (map fst F)
           \<and> set (map fst F) \<subseteq> {''name'', ''description'', ''numEmployees'', ''logoUrl''}
           \<and> list_all (\<lambda>(key, v).
                  fits (column_type (js_or (Company_update_jsToSql key) key)) v) F
         \<longrightarrow> fst (Company_update schema db h F) = Inl (NotFoundError (''No company: '' @ h))))
   \<and> (\<not> has_job db k \<and> fits TInteger (SqlInt k) \<longrightarrow>
      fst (Job_get schema db k) = Inl (NotFoundError (''No job: '' @ toString_int k))
      \<and> fst (Job_remove schema db k) = Inl (NotFoundError (''No job: '' @ toString_int k))
      \<and> (G \<noteq> [] \<and> distinct (map fst G)
           \<and> set (map fst G) \<subseteq> {''title'', ''salary'', ''equity''}
           \<and> list_all (\<lambda>(key, v). fits (column_type key) v) G
         \<longrightarrow> fst (Job_update schema db k G) = Inl (NotFoundError (''No job: '' @ toString_int k))))"
proof (intro conjI impI)
  assume c: "\<not> has_company db h \<and> fits TText (SqlText h)"
  then show "fst (Company_get schema db h) = Inl (NotFoundError (''No company: '' @ h))"
    by (simp add: Company_get_missing)
  from c show "fst (Company_remove schema db h) = Inl (NotFoundError (''No company: '' @ h))"
    by (simp add: Company_remove_missing)
  assume f: "F \<noteq> [] \<and> distinct (map fst F)
      \<and> set (map fst F) \<subseteq> {''name'', ''description'', ''numEmployees'', ''logoUrl''}
      \<and> list_all (\<lambda>(key, v). fits (column_type (js_or (Company_update_jsToSql key) key)) v) F"
  let ?tr = "\<lambda>key. js_or (Company_update_jsToSql key) key"
  from f have ne: "F \<noteq> []" and dk: "distinct (map fst F)"
    and sub: "set (map fst F) \<subseteq> {''name'', ''description'', ''numEmployees'', ''logoUrl''}"
    and ft: "list_all (\<lambda>(key, v). fits (column_type (?tr key)) v) F"
    by blast+
  from dk sub have d: "distinct (map ?tr (map fst F))"
    by (rule Company_update_fields_distinct)
  have col: "?tr key \<in> set (columns Companies)" if "(key, v) \<in> set F" for key v
  proof -
    from that have "fst (key, v) \<in> fst ` set F" by (rule imageI)
    then have "key \<in> set (map fst F)" by (simp only: fst_conv set_map)
    with sub have "key \<in> {''name'', ''description'', ''numEmployees'', ''logoUrl''}"
      by (rule subsetD)
    then show ?thesis by (rule Company_update_fields)
  qed
  have ok: "list_all (\<lambda>(key, v). ?tr key \<in> set (columns Companies)
                       \<and> fits (column_type (?tr key)) v) F"
    unfolding list_all_iff
  proof (intro ballI)
    fix p
    assume p: "p \<in> set F"
    obtain key v where kv: "p = (key, v)" by (cases p)
    from p kv have "?tr key \<in> set (columns Companies)" by (intro col) simp
    moreover from ft p kv have "fits (column_type (?tr key)) v"
      unfolding list_all_iff by blast
    ultimately show "case p of (key, v) \<Rightarrow> ?tr key \<in> set (columns Companies)
                       \<and> fits (column_type (?tr key)) v"
      unfolding kv by (simp only: prod.case simp_thms)
  qed
  from c have nc: "\<not> has_company db h" by blast
  from nc ne d ok
  show "fst (Company_update schema db h F) = Inl (NotFoundError (''No company: '' @ h))"
    by (rule Company_update_missing)
next
  assume j: "\<not> has_job db k \<and> fits TInteger (SqlInt k)"
  then show "fst (Job_get schema db k) = Inl (NotFoundError (''No job: '' @ toString_int k))"
    by (simp add: Job_get_missing)
  from j show "fst (Job_remove schema db k) = Inl (NotFoundError (''No job: '' @ toString_int k))"
    by (simp add: Job_remove_missing)
  assume g: "G \<noteq> [] \<and> distinct (map fst G)
      \<and> set (map fst G) \<subseteq> {''title'', ''salary'', ''equity''}
      \<and> list_all (\<lambda>(key, v). fits (column_type key) v) G"
  let ?tr = "\<lambda>key. js_or (Job_update_jsToSql key) key"
  from g have ne: "G \<noteq> []" and dk: "distinct (map fst G)"
    and sub: "set (map fst G) \<subseteq> {''title'', ''salary'', ''equity''}"
    and ft: "list_all (\<lambda>(key, v). fits (column_type key) v) G"
    by blast+
  have tr: "?tr key = key \<and> key \<in> set (columns Jobs)" if "key \<in> set (map fst G)" for key
  proof -
    from sub that have "key \<in> {''title'', ''salary'', ''equity''}" by (rule subsetD)
    then show ?thesis by (rule Job_update_fields)
  qed
  then have "map ?tr (map fst G) = map fst G"
    by (intro map_idI) blast
  with dk have d: "distinct (map ?tr (map fst G))"
    by (simp only:)
  have ok: "list_all (\<lambda>(key, v). ?tr key \<in> set (columns Jobs)
                       \<and> fits (column_type (?tr key)) v) G"
    unfolding list_all_iff
  proof (intro ballI)
    fix p
    assume p: "p \<in> set G"
    obtain key v where kv: "p = (key, v)" by (cases p)
    from p have "fst p \<in> fst ` set G" by (rule imageI)
    with kv have "key \<in> set (map fst G)" by (simp only: fst_conv set_map)
    from tr [OF this] have t: "?tr key = key" and cj: "key \<in> set (columns Jobs)" by blast+
    from ft p kv have "fits (column_type key) v"
      unfolding list_all_iff by blast
    with t cj show "case p of (key, v) \<Rightarrow> ?tr key \<in> set (columns Jobs)
                       \<and> fits (column_type (?tr key)) v"
      unfolding kv by (simp only: prod.case simp_thms)
  qed
  from j have nj: "\<not> has_job db k" and fk: "fits TInteger (SqlInt k)" by blast+
  from nj fk ne d ok
  show "fst (Job_update schema db k G) = Inl (NotFoundError (''No job: '' @ toString_int k))"
    by (rule Job_update_missing)
qed

text \<open>On the store of the route tests.\<close>

theorem missing_key_not_found_witness:
  "\<not> has_company test_store ''nope'' \<and> fits TText (SqlText ''nope'')
   \<and> \<not> has_job test_store 0 \<and> fits TInteger (SqlInt 0)
   \<and> fst (Company_get spec_schema test_store ''nope'') = Inl (NotFoundError ''No company: nope'')
   \<and> fst (Company_remove spec_schema test_store ''nope'') = Inl (NotFoundError ''No company: nope'')
   \<and> fst (Job_get spec_schema test_store 0) = Inl (NotFoundError ''No job: 0'')
   \<and> fst (Job_remove spec_schema test_store 0) = Inl (NotFoundError ''No job: 0'')
   \<and> fst (Company_update spec_schema test_store ''nope''
             [(''name'', SqlText ''New''), (''numEmployees'', SqlInt 7)])
       = Inl (NotFoundError ''No company: nope'')
   \<and> fst (Job_update spec_schema test_store 0
             [(''title'', SqlText ''New Job''), (''salary'', SqlInt 5)])
       = Inl (NotFoundError ''No job: 0'')"
proof -
  have c: "\<not> has_company test_store ''nope''" by code_simp
  have j: "\<not> has_job test_store 0" by code_simp
  from missing_key_not_found
         [of test_store "''nope''" spec_schema
             "[(''name'', SqlText ''New''), (''numEmployees'', SqlInt 7)]" 0
             "[(''title'', SqlText ''New Job''), (''salary'', SqlInt 5)]"]
  show ?thesis
    using c j
    by (simp add: js_or_def Company_update_jsToSql_def object_literal_def
          Object_prototype_def column_type_def toString_int_def toString_nat.simps digit_char_def)
qed

text \<open>
  C9. When the store has a company with handle \<open>h\<close>, \<open>Company.create\<close> with that handle
  fails with \<open>BadRequestError\<close> and the message \<^verbatim>\<open>Duplicate company: h\<close> (the
  specification's DuplicateKeyError). The tables are as they were, and the one statement
  issued is the SELECT of the duplicate check: the INSERT is not attempted.
\<close>

theorem Company_create_duplicate_rejected:
  assumes "has_company db h"
  shows "Company_create schema db h n d e l
           = (Inl (BadRequestError (''Duplicate company: '' @ h)),
              db\<lparr>issued := issued db @ [(Company_create_duplicateCheck_sql, [SqlText h])]\<rparr>)"
  using assms by (rule Company_create_duplicate)

theorem Company_create_duplicate_rejected_witness:
  "has_company test_store ''c1''
   \<and> Company_create spec_schema test_store ''c1'' ''New'' ''New Description'' (Some 1)
         (Some ''http://new.img'')
       = (Inl (BadRequestError ''Duplicate company: c1''),
          test_store\<lparr>issued := [(Company_create_duplicateCheck_sql, [SqlText ''c1''])]\<rparr>)"
proof -
  have c: "has_company test_store ''c1''" by code_simp
  from Company_create_duplicate_rejected
         [OF c, of spec_schema "''New''" "''New Description''" "Some 1" "Some ''http://new.img''"]
  show ?thesis using c by (simp add: test_store_def)
qed

text \<open>
  C10. Take two filter sets in which the same filters are truthy. The two query texts that
  \<open>Company.findAll\<close> builds are equal (it builds none for a filter set that its range
  check rejects), and \<^verbatim>\<open>qVal\<close> is the values of the truthy filters, the name between
  percent signs, in the order name, minEmployees, maxEmployees. \<open>Job.findAll\<close> builds
  the same text for both, and its \<^verbatim>\<open>qVal\<close> is the title between percent signs and
  minSalary, where truthy.
\<close>

theorem findAll_text_fixed_by_truthy_filters:
  assumes "truthy_string n = truthy_string n'" and "truthy_number a = truthy_number a'"
    and "truthy_number b = truthy_number b'"
    and "truthy_string t = truthy_string t'" and "truthy_number s = truthy_number s'"
    and "truthy_bool e = truthy_bool e'"
  shows "(Company_findAll_query \<lparr>name = n, minEmployees = a, maxEmployees = b\<rparr> = Inr (q, v)
          \<and> Company_findAll_query \<lparr>name = n', minEmployees = a', maxEmployees = b'\<rparr> = Inr (q', v')
          \<longrightarrow> q = q'
              \<and> v = (if truthy_string n then [SqlText (''%'' @ the n @ ''%'')] else [])
                      @ (if truthy_number a then [SqlInt (the a)] else [])
                      @ (if truthy_number b then [SqlInt (the b)] else []))
       \<and> fst (Job_findAll_query \<lparr>minSalary = s, hasEquity = e, title = t\<rparr>)
           = fst (Job_findAll_query \<lparr>minSalary = s', hasEquity = e', title = t'\<rparr>)
       \<and> snd (Job_findAll_query \<lparr>minSalary = s, hasEquity = e, title = t\<rparr>)
           = (if truthy_string t then [SqlText (''%'' @ the t @ ''%'')] else [])
               @ (if truthy_number s then [SqlInt (the s)] else [])"
proof -
  have company: "q = q'
      \<and> v = (if truthy_string n then [SqlText (''%'' @ the n @ ''%'')] else [])
              @ (if truthy_number a then [SqlInt (the a)] else [])
              @ (if truthy_number b then [SqlInt (the b)] else [])"
    if f: "Company_findAll_query \<lparr>name = n, minEmployees = a, maxEmployees = b\<rparr> = Inr (q, v)"
      and g: "Company_findAll_query \<lparr>name = n', minEmployees = a', maxEmployees = b'\<rparr> = Inr (q', v')"
  proof -
    have ok: "\<not> js_gt a b"
    proof
      assume "js_gt a b"
      then have "Company_findAll_query \<lparr>name = n, minEmployees = a, maxEmployees = b\<rparr>
          = Inl (BadRequestError ''minEmployees cannot be greater than maxEmployees'')"
        by (simp add: Company_findAll_query_def)
      with f show False by simp
    qed
    have ok': "\<not> js_gt a' b'"
    proof
      assume "js_gt a' b'"
      then have "Company_findAll_query \<lparr>name = n', minEmployees = a', maxEmployees = b'\<rparr>
          = Inl (BadRequestError ''minEmployees cannot be greater than maxEmployees'')"
        by (simp add: Company_findAll_query_def)
      with g show False by simp
    qed
    from f have 1: "Inr (q, v) = Company_findAll_query \<lparr>name = n, minEmployees = a, maxEmployees = b\<rparr>"
      by simp
    from g have 2: "Inr (q', v') = Company_findAll_query \<lparr>name = n', minEmployees = a', maxEmployees = b'\<rparr>"
      by simp
    from 1 2 assms(1-3) have "q = q'"
      unfolding Company_findAll_query_form [OF ok] Company_findAll_query_form [OF ok'] by simp
    moreover from 1 have "v = (if truthy_string n then [SqlText (''%'' @ the n @ ''%'')] else [])
                 @ (if truthy_number a then [SqlInt (the a)] else [])
                 @ (if truthy_number b then [SqlInt (the b)] else [])"
      unfolding Company_findAll_query_form [OF ok] by simp
    ultimately show ?thesis by simp
  qed
  moreover from assms(4-6)
  have "fst (Job_findAll_query \<lparr>minSalary = s, hasEquity = e, title = t\<rparr>)
           = fst (Job_findAll_query \<lparr>minSalary = s', hasEquity = e', title = t'\<rparr>)"
    unfolding Job_findAll_query_form by simp
  moreover have "snd (Job_findAll_query \<lparr>minSalary = s, hasEquity = e, title = t\<rparr>)
           = (if truthy_string t then [SqlText (''%'' @ the t @ ''%'')] else [])
               @ (if truthy_number s then [SqlInt (the s)] else [])"
    unfolding Job_findAll_query_form by simp
  ultimately show ?thesis by blast
qed

theorem findAll_text_fixed_by_truthy_filters_witness:
  "truthy_string (Some []) = truthy_string None
   \<and> truthy_number (Some 5) = truthy_number (Some 700)
   \<and> truthy_number (Some 9) = truthy_number (Some 800)
   \<and> truthy_string None = truthy_string (Some [])
   \<and> truthy_number (Some 2) = truthy_number (Some 3)
   \<and> truthy_bool (Some True) = truthy_bool (Some True)
   \<and> Company_findAll_query \<lparr>name = Some [], minEmployees = Some 5, maxEmployees = Some 9\<rparr>
       = Inr (Company_findAll_select
                @ '' WHERE num_employees >= $1 AND num_employees <= $2 ORDER BY name'',
              [SqlInt 5, SqlInt 9])
   \<and> Company_findAll_query \<lparr>name = None, minEmployees = Some 700, maxEmployees = Some 800\<rparr>
       = Inr (Company_findAll_select
                @ '' WHERE num_employees >= $1 AND num_employees <= $2 ORDER BY name'',
              [SqlInt 700, SqlInt 800])
   \<and> fst (Job_findAll_query \<lparr>minSalary = Some 2, hasEquity = Some True, title = None\<rparr>)
       = fst (Job_findAll_query \<lparr>minSalary = Some 3, hasEquity = Some True, title = Some []\<rparr>)
   \<and> fst (Job_findAll_query \<lparr>minSalary = Some 2, hasEquity = Some True, title = None\<rparr>)
       = Job_findAll_select @ '' WHERE salary >= $1 AND equity > 0 ORDER BY title''
   \<and> snd (Job_findAll_query \<lparr>minSalary = Some 2, hasEquity = Some True, title = None\<rparr>)
       = [SqlInt 2]"
proof -
  have f: "Company_findAll_query \<lparr>name = Some [], minEmployees = Some 5, maxEmployees = Some 9\<rparr>
       = Inr (Company_findAll_select
                @ '' WHERE num_employees >= $1 AND num_employees <= $2 ORDER BY name'',
              [SqlInt 5, SqlInt 9])"
    by code_simp
  have g: "Company_findAll_query \<lparr>name = None, minEmployees = Some 700, maxEmployees = Some 800\<rparr>
       = Inr (Company_findAll_select
                @ '' WHERE num_employees >= $1 AND num_employees <= $2 ORDER BY name'',
              [SqlInt 700, SqlInt 800])"
    by code_simp
  have j: "fst (Job_findAll_query \<lparr>minSalary = Some 2, hasEquity = Some True, title = None\<rparr>)
       = Job_findAll_select @ '' WHERE salary >= $1 AND equity > 0 ORDER BY title''"
    by code_simp
  have h1: "truthy_string (Some []) = truthy_string None"
    by (simp add: truthy_string_def)
  have h2: "truthy_number (Some 5) = truthy_number (Some 700)"
    by (simp add: truthy_number_def)
  have h3: "truthy_number (Some 9) = truthy_number (Some 800)"
    by (simp add: truthy_number_def)
  have h4: "truthy_string None = truthy_string (Some [])"
    by (simp add: truthy_string_def)
  have h5: "truthy_number (Some 2) = truthy_number (Some 3)"
    by (simp add: truthy_number_def)
  have h6: "truthy_bool (Some True) = truthy_bool (Some True)"
    by simp
  from findAll_text_fixed_by_truthy_filters
         [OF h1 h2 h3 h4 h5 h6,
          of "Company_findAll_select
                @ '' WHERE num_employees >= $1 AND num_employees <= $2 ORDER BY name''"
             "[SqlInt 5, SqlInt 9]"
             "Company_findAll_select
                @ '' WHERE num_employees >= $1 AND num_employees <= $2 ORDER BY name''"
             "[SqlInt 700, SqlInt 800]"]
  show ?thesis using h1 h2 h3 h4 f g j
    by (simp add: truthy_string_def truthy_number_def)
qed

end
